theory Spec2Isabelle
  imports Main "HOL-Library.Log_Nat" "HOL-Library.Multiset"
begin

section \<open>JavaScript numbers\<close>

text \<open>
  A JavaScript Number is an IEEE 754 binary64 value. A finite one is modelled by the
  rational it denotes; \<open>-0\<close> is identified with \<open>0\<close> (no operation of \<^verbatim>\<open>bot.js\<close>
  tells them apart: there is no division by a variable, and \<^verbatim>\<open>toFixed\<close> prints both
  without a sign). Every arithmetic result is rounded to the nearest binary64 value,
  ties to the even significand, by \<open>round64\<close>.
\<close>

datatype number = Fin rat | PosInf | NegInf | NaN

definition pow2 :: "int \<Rightarrow> rat" where
  "pow2 e = (if 0 \<le> e then 2 ^ nat e else 1 / 2 ^ nat (- e))"

text \<open>\<open>ilog2 a\<close> is \<open>\<lfloor>log\<^sub>2 a\<rfloor>\<close> for a positive rational \<open>a\<close>.\<close>

definition ilog2 :: "rat \<Rightarrow> int" where
  "ilog2 a = (if 1 \<le> a then int (floorlog 2 (nat \<lfloor>a\<rfloor>)) - 1
              else - int (floorlog 2 (nat (\<lceil>1 / a\<rceil> - 1))))"

definition round_half_even :: "rat \<Rightarrow> int" where
  "round_half_even q =
     (let f = \<lfloor>q\<rfloor>; d = q - of_int f
      in if d < 1 / 2 then f else if 1 / 2 < d then f + 1 else if even f then f else f + 1)"

text \<open>
  Rounding to binary64: the significand has 53 bits, the least exponent of the unit in
  the last place is \<open>-1074\<close> (subnormal numbers), and a result of magnitude
  \<open>2\<^sup>1\<^sup>0\<^sup>2\<^sup>4\<close> or more (significand \<open>2\<^sup>5\<^sup>3\<close> at exponent \<open>971\<close>) overflows to an infinity.
\<close>

definition round64 :: "rat \<Rightarrow> number" where
  "round64 x =
     (if x = 0 then Fin 0
      else let a = \<bar>x\<bar>;
               e = max (ilog2 a - 52) (- 1074);
               m = round_half_even (a / pow2 e)
           in if 971 < e \<or> e = 971 \<and> 2 ^ 53 \<le> m then (if 0 < x then PosInf else NegInf)
              else Fin (if 0 < x then of_int m * pow2 e else - (of_int m * pow2 e)))"

text \<open>A rational is a binary64 value when rounding leaves it as it is.\<close>

definition is_double :: "rat \<Rightarrow> bool" where
  "is_double x \<longleftrightarrow> round64 x = Fin x"

text \<open>The operators \<^verbatim>\<open>+\<close>, \<^verbatim>\<open>*\<close> and \<^verbatim>\<open>/\<close> on Numbers.\<close>

fun num_add :: "number \<Rightarrow> number \<Rightarrow> number" where
  "num_add NaN _ = NaN"
| "num_add _ NaN = NaN"
| "num_add PosInf NegInf = NaN"
| "num_add NegInf PosInf = NaN"
| "num_add PosInf _ = PosInf"
| "num_add _ PosInf = PosInf"
| "num_add NegInf _ = NegInf"
| "num_add _ NegInf = NegInf"
| "num_add (Fin x) (Fin y) = round64 (x + y)"

definition signed_inf :: "bool \<Rightarrow> number" where
  "signed_inf positive = (if positive then PosInf else NegInf)"

fun num_mul :: "number \<Rightarrow> number \<Rightarrow> number" where
  "num_mul NaN _ = NaN"
| "num_mul _ NaN = NaN"
| "num_mul PosInf PosInf = PosInf"
| "num_mul PosInf NegInf = NegInf"
| "num_mul NegInf PosInf = NegInf"
| "num_mul NegInf NegInf = PosInf"
| "num_mul PosInf (Fin y) = (if y = 0 then NaN else signed_inf (0 < y))"
| "num_mul NegInf (Fin y) = (if y = 0 then NaN else signed_inf (y < 0))"
| "num_mul (Fin x) PosInf = (if x = 0 then NaN else signed_inf (0 < x))"
| "num_mul (Fin x) NegInf = (if x = 0 then NaN else signed_inf (x < 0))"
| "num_mul (Fin x) (Fin y) = round64 (x * y)"

text \<open>Division is only ever by the literal \<^verbatim>\<open>100\<close>.\<close>

fun div100 :: "number \<Rightarrow> number" where
  "div100 (Fin x) = round64 (x / 100)"
| "div100 PosInf = PosInf"
| "div100 NegInf = NegInf"
| "div100 NaN = NaN"

text \<open>The relational operator \<^verbatim>\<open>>\<close>: false as soon as an operand is \<^verbatim>\<open>NaN\<close>.\<close>

fun num_gt :: "number \<Rightarrow> number \<Rightarrow> bool" where
  "num_gt NaN _ = False"
| "num_gt _ NaN = False"
| "num_gt PosInf b = (b \<noteq> PosInf)"
| "num_gt _ PosInf = False"
| "num_gt NegInf _ = False"
| "num_gt (Fin x) NegInf = True"
| "num_gt (Fin x) (Fin y) = (y < x)"

section \<open>Strings, loosely typed values and the runtime\<close>

text \<open>
  A JavaScript string is modelled by its UTF-8 bytes: the ASCII part of a text reads as
  in the source, and a character beyond ASCII is written as its bytes. The delimiter
  of a tariff code is ASCII, so splitting a string at it is the same on both views.
\<close>

definition pound :: string where
  "pound = [CHR 0xC2, CHR 0xA3]"

definition emoji_key :: string where
  "emoji_key = [CHR 0xF0, CHR 0x9F, CHR 0x94, CHR 0x91]"

definition emoji_check :: string where
  "emoji_check = [CHR 0xE2, CHR 0x9C, CHR 0x85]"

definition emoji_cross :: string where
  "emoji_cross = [CHR 0xE2, CHR 0x9D, CHR 0x8C]"

definition emoji_magnifier :: string where
  "emoji_magnifier = [CHR 0xF0, CHR 0x9F, CHR 0x94, CHR 0x8D]"

definition emoji_chart :: string where
  "emoji_chart = [CHR 0xF0, CHR 0x9F, CHR 0x93, CHR 0x8A]"

definition emoji_warning :: string where
  "emoji_warning = [CHR 0xE2, CHR 0x9A, CHR 0xA0, CHR 0xEF, CHR 0xB8, CHR 0x8F]"

definition emoji_plug :: string where
  "emoji_plug = [CHR 0xF0, CHR 0x9F, CHR 0x94, CHR 0x8C]"

text \<open>A field of a provider record whose type the program does not fix.\<close>

datatype jsprim = JUndefined | JNull | JNum number | JStr string

text \<open>
  The built-in functions of the JavaScript runtime that the program reaches and that
  are not modelled here are parameters: the parsing of a date string (the time value
  in milliseconds, or \<^verbatim>\<open>NaN\<close>), the conversion of a string to a Number, the
  shortest decimal text of a finite Number, and the message of the TypeError that
  reading a property (the second argument) of \<^verbatim>\<open>null\<close> or \<^verbatim>\<open>undefined\<close> (the first
  argument) throws, which differs between versions of the runtime.
\<close>

record runtime =
  Date_parse :: "string \<Rightarrow> number"
  StringToNumber :: "string \<Rightarrow> number"
  Number_toString :: "rat \<Rightarrow> string"
  Cannot_read :: "jsprim \<Rightarrow> string \<Rightarrow> string"

text \<open>
  Reading the property \<open>key\<close> of an object made by \<^verbatim>\<open>JSON.parse\<close>: its own
  property when it has one; otherwise what it inherits from \<^verbatim>\<open>Object.prototype\<close>
  under one of the names below (the prototype itself or a function, never a record of
  the provider); otherwise \<^verbatim>\<open>undefined\<close>.
\<close>

definition Object_prototype_names :: "string list" where
  "Object_prototype_names =
     [''constructor'', ''__defineGetter__'', ''__defineSetter__'', ''hasOwnProperty'',
      ''__lookupGetter__'', ''__lookupSetter__'', ''isPrototypeOf'', ''propertyIsEnumerable'',
      ''toString'', ''valueOf'', ''__proto__'', ''toLocaleString'']"

datatype 'a lookup = Own 'a | Inherited | NoProperty

definition get_property :: "(string \<rightharpoonup> 'a) \<Rightarrow> string \<Rightarrow> 'a lookup" where
  "get_property obj key =
     (case obj key of
        Some v \<Rightarrow> Own v
      | None \<Rightarrow> if key \<in> set Object_prototype_names then Inherited else NoProperty)"

fun number_ToString :: "runtime \<Rightarrow> number \<Rightarrow> string" where
  "number_ToString rt NaN = ''NaN''"
| "number_ToString rt PosInf = ''Infinity''"
| "number_ToString rt NegInf = ''-Infinity''"
| "number_ToString rt (Fin x) = Number_toString rt x"

text \<open>\<^verbatim>\<open>`${v}`\<close> and \<^verbatim>\<open>Number(v)\<close>.\<close>

fun ToString :: "runtime \<Rightarrow> jsprim \<Rightarrow> string" where
  "ToString rt JUndefined = ''undefined''"
| "ToString rt JNull = ''null''"
| "ToString rt (JNum n) = number_ToString rt n"
| "ToString rt (JStr s) = s"

fun Number :: "runtime \<Rightarrow> jsprim \<Rightarrow> number" where
  "Number rt JUndefined = NaN"
| "Number rt JNull = Fin 0"
| "Number rt (JNum n) = n"
| "Number rt (JStr s) = StringToNumber rt s"

subsection \<open>Dates\<close>

definition time_clip :: "number \<Rightarrow> number" where
  "time_clip t =
     (case t of
        Fin x \<Rightarrow> if 8640000000000000 < \<bar>x\<bar> then NaN
                 else Fin (of_int (if 0 \<le> x then \<lfloor>x\<rfloor> else \<lceil>x\<rceil>))
      | _ \<Rightarrow> NaN)"

text \<open>
  The time value of \<^verbatim>\<open>new Date(v)\<close>: a string is parsed, anything else is converted
  to a Number first, so that \<^verbatim>\<open>null\<close> is the epoch and \<^verbatim>\<open>undefined\<close> an invalid date.
\<close>

fun new_Date :: "runtime \<Rightarrow> jsprim \<Rightarrow> number" where
  "new_Date rt (JStr s) = time_clip (Date_parse rt s)"
| "new_Date rt v = time_clip (Number rt v)"

subsection \<open>Number.prototype.toFixed\<close>

definition digit_char :: "nat \<Rightarrow> char" where
  "digit_char d = ''0123456789'' ! d"

fun decimal :: "nat \<Rightarrow> string" where
  "decimal n = (if n < 10 then [digit_char n] else decimal (n div 10) @ [digit_char (n mod 10)])"

declare decimal.simps [simp del]

text \<open>The integer nearest to \<open>q\<close>, the larger one of two.\<close>

definition round_half_up :: "rat \<Rightarrow> int" where
  "round_half_up q = \<lfloor>q + 1 / 2\<rfloor>"

text \<open>
  \<^verbatim>\<open>x.toFixed(f)\<close> for \<open>0 \<le> f \<le> 100\<close> (the program passes 0, 2 and 4): the digits of
  the integer \<open>n\<close> nearest to \<open>x \<sqdot> 10\<^sup>f\<close>, filled with zeros to \<open>f + 1\<close> digits, with
  the point before the last \<open>f\<close> of them.
\<close>

definition toFixed :: "runtime \<Rightarrow> number \<Rightarrow> nat \<Rightarrow> string" where
  "toFixed rt x f =
     (case x of
        NaN \<Rightarrow> ''NaN''
      | PosInf \<Rightarrow> ''Infinity''
      | NegInf \<Rightarrow> ''-Infinity''
      | Fin r \<Rightarrow>
          let s = (if r < 0 then ''-'' else []);
              a = \<bar>r\<bar>
          in if 10 ^ 21 \<le> a then s @ Number_toString rt a
             else
               let m = decimal (nat (round_half_up (a * 10 ^ f)))
               in if f = 0 then s @ m
                  else
                    let m' = (if length m \<le> f then replicate (f + 1 - length m) CHR ''0'' @ m
                              else m);
                        k = length m'
                    in s @ take (k - f) m' @ ''.'' @ drop (k - f) m')"

subsection \<open>parseFloat\<close>

definition is_digit :: "char \<Rightarrow> bool" where
  "is_digit c \<longleftrightarrow> (48::nat) \<le> of_char c \<and> of_char c \<le> (57::nat)"

definition is_space :: "char \<Rightarrow> bool" where
  "is_space c \<longleftrightarrow> (of_char c :: nat) \<in> {9, 10, 11, 12, 13, 32}"

definition digits_value :: "string \<Rightarrow> nat" where
  "digits_value ds = foldl (\<lambda>a c. 10 * a + (of_char c - 48)) 0 ds"

definition pow10 :: "int \<Rightarrow> rat" where
  "pow10 e = (if 0 \<le> e then 10 ^ nat e else 1 / 10 ^ nat (- e))"

text \<open>
  The value of the exponent part that a decimal literal may end with: an \<^verbatim>\<open>e\<close> or
  \<^verbatim>\<open>E\<close>, an optional sign and at least one digit; \<open>0\<close> when there is none.
\<close>

definition exponent_part :: "string \<Rightarrow> int" where
  "exponent_part s =
     (case s of
        c # t \<Rightarrow>
          if c = CHR ''e'' \<or> c = CHR ''E'' then
            (case t of
               d # u \<Rightarrow>
                 if d = CHR ''-'' then - int (digits_value (takeWhile is_digit u))
                 else if d = CHR ''+'' then int (digits_value (takeWhile is_digit u))
                 else int (digits_value (takeWhile is_digit t))
             | [] \<Rightarrow> 0)
          else 0
      | [] \<Rightarrow> 0)"

text \<open>
  \<^verbatim>\<open>parseFloat\<close> reads the longest prefix that is a decimal literal, after leading
  white space (the ASCII part of it here) and a sign, and rounds its value to a
  Number; the result is \<^verbatim>\<open>NaN\<close> when no prefix is a literal.
\<close>

definition unsigned_literal :: "string \<Rightarrow> number" where
  "unsigned_literal s =
     (if take 8 s = ''Infinity'' then PosInf
      else
        let ip = takeWhile is_digit s;
            r1 = dropWhile is_digit s;
            fp = (case r1 of c # t \<Rightarrow> if c = CHR ''.'' then takeWhile is_digit t else []
                  | [] \<Rightarrow> []);
            r2 = (case r1 of c # t \<Rightarrow> if c = CHR ''.'' then dropWhile is_digit t else r1
                  | [] \<Rightarrow> [])
        in if ip = [] \<and> fp = [] then NaN
           else round64 (rat_of_nat (digits_value (ip @ fp))
                  * pow10 (exponent_part r2 - int (length fp))))"

definition negate :: "number \<Rightarrow> number" where
  "negate x = (case x of Fin r \<Rightarrow> Fin (- r) | PosInf \<Rightarrow> NegInf | NegInf \<Rightarrow> PosInf | NaN \<Rightarrow> NaN)"

definition parseFloat :: "string \<Rightarrow> number" where
  "parseFloat str =
     (case dropWhile is_space str of
        c # t \<Rightarrow>
          if c = CHR ''-'' then negate (unsigned_literal t)
          else if c = CHR ''+'' then unsigned_literal t
          else unsigned_literal (c # t)
      | [] \<Rightarrow> NaN)"

section \<open>Effects: the console, errors and awaited responses\<close>

text \<open>
  An \<^verbatim>\<open>async\<close> function is a computation that writes lines to the console and
  either throws (its promise is rejected) or returns. The response that each request
  receives is an input of the function that sends it: the rejection of the request, or
  the body of the response.
\<close>

datatype js_error = Error string | TypeError string

fun message :: "js_error \<Rightarrow> string" where
  "message (Error m) = m"
| "message (TypeError m) = m"

datatype log_line = Stdout string | Stderr string

type_synonym 'a io = "log_line list \<times> (js_error + 'a)"

definition io_return :: "'a \<Rightarrow> 'a io" where
  "io_return x = ([], Inr x)"

definition throw :: "js_error \<Rightarrow> 'a io" where
  "throw e = ([], Inl e)"

definition await :: "js_error + 'a \<Rightarrow> 'a io" where
  "await response = ([], response)"

text \<open>The lines of two computations in a row follow each other on the console.\<close>

definition after :: "log_line list \<Rightarrow> 'a io \<Rightarrow> 'a io" where
  "after ls m = (case m of (ls', r) \<Rightarrow> (ls @ ls', r))"

definition io_bind :: "'a io \<Rightarrow> ('a \<Rightarrow> 'b io) \<Rightarrow> 'b io" where
  "io_bind m f =
     (case m of
        (ls, Inl e) \<Rightarrow> (ls, Inl e)
      | (ls, Inr x) \<Rightarrow> after ls (f x))"

definition try_catch :: "'a io \<Rightarrow> (js_error \<Rightarrow> 'a io) \<Rightarrow> 'a io" where
  "try_catch m handler =
     (case m of
        (ls, Inl e) \<Rightarrow> after ls (handler e)
      | (ls, Inr x) \<Rightarrow> (ls, Inr x))"

definition console_log :: "string \<Rightarrow> unit io" where
  "console_log s = ([Stdout s], Inr ())"

text \<open>\<^verbatim>\<open>console.error(a, b)\<close> writes its arguments with a space between them.\<close>

definition console_error :: "string \<Rightarrow> string \<Rightarrow> unit io" where
  "console_error a b = ([Stderr (a @ '' '' @ b)], Inr ())"

section \<open>The provider's records\<close>

record config =
  baseURL :: string
  apiKey :: string
  mpan :: string
  serialNumber :: string

record kraken_token =
  token :: string
  refreshToken :: string
  refreshExpiresIn :: int

record smart_device =
  deviceId :: string

record meter =
  smartDevices :: "smart_device list option"

record meter_point =
  meters :: "meter list option"

record electricity_agreement =
  meterPoint :: meter_point

record graphql_account =
  electricityAgreements :: "electricity_agreement list option"

record telemetry =
  readAt :: string
  demand :: jsprim
  telemetry_consumption :: jsprim

record agreement =
  tariff_code :: string
  valid_from :: jsprim
  valid_to :: jsprim

record electricity_meter_point =
  point_mpan :: string
  agreements :: "agreement list"

record property =
  electricity_meter_points :: "electricity_meter_point list"

record account =
  properties :: "property list"

record payment_details =
  standard_unit_rate_inc_vat :: number
  standing_charge_inc_vat :: number

record region_tariff =
  direct_debit_monthly :: "payment_details option"

record product =
  display_name :: string
  single_register_electricity_tariffs :: "string \<rightharpoonup> region_tariff"

record reading =
  consumption :: number

record consumption_page =
  results :: "reading list"

text \<open>What the functions of the program return.\<close>

record tariff_info =
  name :: string
  unit_rate :: string
  standing_charge :: string

record usage_window =
  usage :: number
  cost :: number

text \<open>
  The responses to the requests of one call: of \<^verbatim>\<open>getLiveUsage\<close> (the token, the
  devices for that token, the telemetry for that token and device), of
  \<^verbatim>\<open>getTariffInfo\<close> (the account, the product for a product code), and of one
  status report, where every call of \<^verbatim>\<open>getTariffInfo\<close> has responses of its own.
\<close>

record live_env =
  token_response :: "js_error + kraken_token"
  guid_response :: "string \<Rightarrow> js_error + graphql_account"
  telemetry_response :: "string \<Rightarrow> string \<Rightarrow> js_error + telemetry list option"

record tariff_env =
  account_response :: "js_error + account"
  product_response :: "string \<Rightarrow> js_error + product"

record usage_env =
  consumption_response :: "js_error + consumption_page"
  usage_tariff :: tariff_env

record utc_time =
  year :: nat
  month :: nat
  day :: nat
  hour :: nat
  minute :: nat
  second :: nat

record report_env =
  live_responses :: live_env
  yesterday_responses :: usage_env
  monthly_responses :: usage_env
  tariff_responses :: tariff_env
  now :: utc_time

section \<open>The program\<close>

subsection \<open>Helpers\<close>

text \<open>
  \<^verbatim>\<open>moment().utc().format("YYYY-MM-DD HH:mm:ss UTC")\<close>: the tokens \<^verbatim>\<open>YYYY\<close>,
  \<^verbatim>\<open>MM\<close>, \<^verbatim>\<open>DD\<close>, \<^verbatim>\<open>HH\<close>, \<^verbatim>\<open>mm\<close> and \<^verbatim>\<open>ss\<close> are the fields of the current
  time filled with zeros to their width; every other character stands for itself.
\<close>

definition zeroFill :: "nat \<Rightarrow> nat \<Rightarrow> string" where
  "zeroFill n targetLength = replicate (targetLength - length (decimal n)) CHR ''0'' @ decimal n"

definition formatTimestamp :: "utc_time \<Rightarrow> string" where
  "formatTimestamp t =
     zeroFill (year t) 4 @ ''-'' @ zeroFill (month t) 2 @ ''-'' @ zeroFill (day t) 2 @ '' '' @
     zeroFill (hour t) 2 @ '':'' @ zeroFill (minute t) 2 @ '':'' @ zeroFill (second t) 2 @ '' UTC''"

definition formatUsageData :: "runtime \<Rightarrow> number \<Rightarrow> number \<Rightarrow> string" where
  "formatUsageData rt = (\<lambda>usage cost.
     ''Usage: '' @ toFixed rt usage 2 @ '' kWh'' @ [CHR 0x0A] @
     ''Cost: '' @ pound @ toFixed rt cost 2)"

subsection \<open>The live usage\<close>

definition getKrakenToken :: "live_env \<Rightarrow> string io" where
  "getKrakenToken env =
     io_bind (console_log (emoji_key @ '' Obtaining Kraken token...'')) (\<lambda>_.
     try_catch
       (io_bind (await (token_response env)) (\<lambda>response.
        io_bind (console_log (emoji_check @ '' Kraken token obtained successfully'')) (\<lambda>_.
        io_return (token response))))
       (\<lambda>error.
        io_bind (console_error (emoji_cross @ '' Error obtaining Kraken token:'') (message error)) (\<lambda>_.
        throw error)))"

definition getMeterGuid :: "live_env \<Rightarrow> string \<Rightarrow> string io" where
  "getMeterGuid env = (\<lambda>token.
     io_bind (console_log (emoji_magnifier @ '' Looking up meter GUID...'')) (\<lambda>_.
     try_catch
       (io_bind (await (guid_response env token)) (\<lambda>response.
        case electricityAgreements response of
          None \<Rightarrow> throw (Error ''No active electricity agreements found'')
        | Some [] \<Rightarrow> throw (Error ''No active electricity agreements found'')
        | Some (agreement0 # _) \<Rightarrow>
            (case meters (meterPoint agreement0) of
               None \<Rightarrow> throw (Error ''No active meters found'')
             | Some [] \<Rightarrow> throw (Error ''No active meters found'')
             | Some (meter0 # _) \<Rightarrow>
                 (case smartDevices meter0 of
                    None \<Rightarrow> throw (Error ''No smart devices found'')
                  | Some [] \<Rightarrow> throw (Error ''No smart devices found'')
                  | Some (device0 # _) \<Rightarrow>
                      io_bind (console_log (emoji_check @ '' Meter GUID found successfully'')) (\<lambda>_.
                      io_return (deviceId device0))))))
       (\<lambda>error.
        io_bind (console_error (emoji_cross @ '' Error getting meter GUID:'') (message error)) (\<lambda>_.
        throw error))))"

text \<open>The body of the \<^verbatim>\<open>try\<close> block of \<^verbatim>\<open>getLiveUsage\<close>.\<close>

definition getLiveUsage_try :: "runtime \<Rightarrow> live_env \<Rightarrow> number io" where
  "getLiveUsage_try rt env =
     io_bind (getKrakenToken env) (\<lambda>token.
     io_bind (getMeterGuid env token) (\<lambda>meterGuid.
     io_bind (await (telemetry_response env token meterGuid)) (\<lambda>smartMeterTelemetry.
     case smartMeterTelemetry of
       None \<Rightarrow> throw (Error ''No telemetry data available'')
     | Some [] \<Rightarrow> throw (Error ''No telemetry data available'')
     | Some (telemetry # _) \<Rightarrow>
         if demand telemetry = JNull then
           io_bind (console_log (emoji_warning @ '' No demand data available, returning 0'')) (\<lambda>_.
           io_return (Fin 0))
         else
           io_bind (console_log (emoji_check @ '' Live usage data received: '' @
                      ToString rt (demand telemetry) @ ''W'')) (\<lambda>_.
           io_return (Number rt (demand telemetry))))))"

definition getLiveUsage :: "runtime \<Rightarrow> live_env \<Rightarrow> number io" where
  "getLiveUsage rt env =
     io_bind (console_log (emoji_chart @ '' Fetching live usage data...'')) (\<lambda>_.
     try_catch (getLiveUsage_try rt env)
       (\<lambda>error.
        io_bind (console_error (emoji_cross @ '' Error fetching live usage:'') (message error)) (\<lambda>_.
        io_return (Fin 0))))"

subsection \<open>The tariff\<close>

text \<open>\<^verbatim>\<open>String.prototype.split\<close> at a one-character separator.\<close>

fun split :: "char \<Rightarrow> string \<Rightarrow> string list" where
  "split sep [] = [[]]"
| "split sep (c # cs) =
     (if c = sep then [] # split sep cs
      else (case split sep cs of
              p # ps \<Rightarrow> (c # p) # ps
            | [] \<Rightarrow> [[c]]))"

text \<open>
  \<^verbatim>\<open>Array.prototype.slice(start, end)\<close>: a negative index counts from the end, and
  both are clamped to the array.
\<close>

definition slice :: "int \<Rightarrow> int \<Rightarrow> 'a list \<Rightarrow> 'a list" where
  "slice start fin xs =
     (let len = int (length xs);
          k = (if start < 0 then max (len + start) 0 else min start len);
          final = (if fin < 0 then max (len + fin) 0 else min fin len)
      in take (nat (final - k)) (drop (nat k) xs))"

fun join :: "string \<Rightarrow> string list \<Rightarrow> string" where
  "join sep [] = []"
| "join sep [x] = x"
| "join sep (x # y # ys) = x @ sep @ join sep (y # ys)"

text \<open>
  Step 2 of \<^verbatim>\<open>getTariffInfo\<close>: the product code and the region letter of a tariff
  code. The element at \<^verbatim>\<open>length - 1\<close> of an empty array would be \<^verbatim>\<open>undefined\<close>, which
  a template literal prints as such.
\<close>

definition parseTariffCode :: "string \<Rightarrow> string \<times> string" where
  "parseTariffCode tariffCode =
     (let tariffParts = split CHR ''-'' tariffCode;
          productCode = join ''-'' (slice 2 (- 1) tariffParts);
          regionLetter = (if tariffParts = [] then ''undefined'' else last tariffParts)
      in (productCode, regionLetter))"

text \<open>
  Step 1, the \<^verbatim>\<open>reduce\<close> that selects the current agreement, starting from
  \<^verbatim>\<open>null\<close>.
\<close>

definition latest_of :: "runtime \<Rightarrow> agreement option \<Rightarrow> agreement \<Rightarrow> agreement option" where
  "latest_of rt latest current =
     (case latest of
        None \<Rightarrow> Some current
      | Some l \<Rightarrow>
          if num_gt (new_Date rt (valid_to current)) (new_Date rt (valid_to l)) then Some current
          else Some l)"

definition currentAgreement :: "runtime \<Rightarrow> agreement list \<Rightarrow> agreement option" where
  "currentAgreement rt ags = foldl (latest_of rt) None ags"

definition getTariffInfo_try :: "runtime \<Rightarrow> config \<Rightarrow> tariff_env \<Rightarrow> tariff_info io" where
  "getTariffInfo_try rt cfg env =
     io_bind (await (account_response env)) (\<lambda>accountRes.
     case find (\<lambda>p. list_ex (\<lambda>e. point_mpan e = mpan cfg) (electricity_meter_points p))
            (properties accountRes) of
       None \<Rightarrow> throw (Error (''MPAN '' @ mpan cfg @ '' not found in any property''))
     | Some propertyWithMpan \<Rightarrow>
         (case find (\<lambda>e. point_mpan e = mpan cfg) (electricity_meter_points propertyWithMpan) of
            None \<Rightarrow> throw (TypeError (Cannot_read rt JUndefined ''agreements''))
          | Some mpanPoint \<Rightarrow>
              (case currentAgreement rt (agreements mpanPoint) of
                 None \<Rightarrow> throw (TypeError (Cannot_read rt JNull ''tariff_code''))
               | Some current \<Rightarrow>
                   (case parseTariffCode (tariff_code current) of
                      (productCode, regionLetter) \<Rightarrow>
                        io_bind (await (product_response env productCode)) (\<lambda>productRes.
                        case get_property (single_register_electricity_tariffs productRes)
                               (''_'' @ regionLetter) of
                          NoProperty \<Rightarrow>
                            throw (TypeError (Cannot_read rt JUndefined ''direct_debit_monthly''))
                        | Inherited \<Rightarrow>
                            throw (TypeError
                              (Cannot_read rt JUndefined ''standard_unit_rate_inc_vat''))
                        | Own regionTariff \<Rightarrow>
                            (case direct_debit_monthly regionTariff of
                               None \<Rightarrow>
                                 throw (TypeError
                                   (Cannot_read rt JUndefined ''standard_unit_rate_inc_vat''))
                             | Some details \<Rightarrow>
                                 io_return
                                   \<lparr>name = display_name productRes,
                                    unit_rate = toFixed rt (div100 (standard_unit_rate_inc_vat details)) 4,
                                    standing_charge =
                                      toFixed rt (div100 (standing_charge_inc_vat details)) 2\<rparr>))))))"

definition getTariffInfo :: "runtime \<Rightarrow> config \<Rightarrow> tariff_env \<Rightarrow> tariff_info io" where
  "getTariffInfo rt cfg env =
     try_catch (getTariffInfo_try rt cfg env)
       (\<lambda>error.
        io_bind (console_error ''Error fetching tariff info:'' (message error)) (\<lambda>_.
        throw error))"

subsection \<open>The consumption of a period\<close>

text \<open>
  \<^verbatim>\<open>getYesterdayUsage\<close> and \<^verbatim>\<open>getMonthlyUsage\<close> differ in the period they request and
  in the line they log; the response to the request is an input here.
\<close>

definition totalUsage :: "reading list \<Rightarrow> number" where
  "totalUsage rs = foldl (\<lambda>sum reading. num_add sum (consumption reading)) (Fin 0) rs"

definition usage_try :: "runtime \<Rightarrow> config \<Rightarrow> usage_env \<Rightarrow> usage_window io" where
  "usage_try rt cfg env =
     io_bind (await (consumption_response env)) (\<lambda>response.
     io_bind (getTariffInfo rt cfg (usage_tariff env)) (\<lambda>tariff.
     io_return
       \<lparr>usage = totalUsage (results response),
        cost = num_mul (totalUsage (results response)) (parseFloat (unit_rate tariff))\<rparr>))"

definition getYesterdayUsage :: "runtime \<Rightarrow> config \<Rightarrow> usage_env \<Rightarrow> usage_window io" where
  "getYesterdayUsage rt cfg env =
     try_catch (usage_try rt cfg env)
       (\<lambda>error.
        io_bind (console_error ''Error fetching yesterday usage:'' (message error)) (\<lambda>_.
        throw error))"

definition getMonthlyUsage :: "runtime \<Rightarrow> config \<Rightarrow> usage_env \<Rightarrow> usage_window io" where
  "getMonthlyUsage rt cfg env =
     try_catch (usage_try rt cfg env)
       (\<lambda>error.
        io_bind (console_error ''Error fetching monthly usage:'' (message error)) (\<lambda>_.
        throw error))"

subsection \<open>The status message\<close>

definition error_text :: string where
  "error_text = emoji_cross @ '' Error fetching data. Please try again later.''"

definition status_text ::
  "runtime \<Rightarrow> number \<Rightarrow> usage_window \<Rightarrow> usage_window \<Rightarrow> tariff_info \<Rightarrow> utc_time \<Rightarrow> string" where
  "status_text rt liveUsage = (\<lambda>yesterday monthly tariff t.
     emoji_plug @ '' *Octopus Energy Status*'' @ [CHR 0x0A, CHR 0x0A] @
     ''*Current Usage:* '' @ toFixed rt liveUsage 0 @ ''W'' @ [CHR 0x0A, CHR 0x0A] @
     ''*Yesterday's Usage:*'' @ [CHR 0x0A] @
     formatUsageData rt (usage yesterday) (cost yesterday) @ [CHR 0x0A, CHR 0x0A] @
     ''*Last 30 Days:*'' @ [CHR 0x0A] @
     formatUsageData rt (usage monthly) (cost monthly) @ [CHR 0x0A, CHR 0x0A] @
     ''*Tariff Information:*'' @ [CHR 0x0A] @
     ''Name: '' @ name tariff @ [CHR 0x0A] @
     ''Unit Rate: '' @ pound @ unit_rate tariff @ ''/kWh'' @ [CHR 0x0A] @
     ''Standing Charge: '' @ pound @ standing_charge tariff @ ''/day'' @ [CHR 0x0A, CHR 0x0A] @
     ''Last Updated: '' @ formatTimestamp t)"

definition generateStatusMessage_try :: "runtime \<Rightarrow> config \<Rightarrow> report_env \<Rightarrow> string io" where
  "generateStatusMessage_try rt cfg env =
     io_bind (getLiveUsage rt (live_responses env)) (\<lambda>liveUsage.
     io_bind (getYesterdayUsage rt cfg (yesterday_responses env)) (\<lambda>yesterday.
     io_bind (getMonthlyUsage rt cfg (monthly_responses env)) (\<lambda>monthly.
     io_bind (getTariffInfo rt cfg (tariff_responses env)) (\<lambda>tariff.
     io_return (status_text rt liveUsage yesterday monthly tariff (now env))))))"

definition generateStatusMessage :: "runtime \<Rightarrow> config \<Rightarrow> report_env \<Rightarrow> string io" where
  "generateStatusMessage rt cfg env =
     try_catch (generateStatusMessage_try rt cfg env)
       (\<lambda>error.
        io_bind (console_error ''Error generating status message:'' (message error)) (\<lambda>_.
        io_return error_text))"

section \<open>Notions used by the properties\<close>

text \<open>
  The segments of a code, written one after the other with a \<^verbatim>\<open>-\<close> between two of
  them.
\<close>

definition dash_joined :: "string list \<Rightarrow> string" where
  "dash_joined parts =
     (case parts of [] \<Rightarrow> [] | p # ps \<Rightarrow> p @ concat (map (\<lambda>q. CHR ''-'' # q) ps))"

text \<open>
  The errors that the program throws itself, to report a record that it did not find,
  are made by \<^verbatim>\<open>new Error\<close>; a TypeError is thrown by the runtime.
\<close>

definition thrown_by_program :: "js_error \<Rightarrow> bool" where
  "thrown_by_program e = (case e of Error m \<Rightarrow> True | TypeError m \<Rightarrow> False)"

text \<open>The value of a finite reading, in kWh.\<close>

definition reading_kwh :: "reading \<Rightarrow> rat" where
  "reading_kwh r = (case consumption r of Fin q \<Rightarrow> q | _ \<Rightarrow> 0)"

text \<open>
  Starting from the running total \<open>acc\<close>, every reading is finite and every further
  running total is a binary64 value: no addition of the summation rounds.
\<close>

fun exact_from :: "rat \<Rightarrow> reading list \<Rightarrow> bool" where
  "exact_from acc [] = True"
| "exact_from acc (r # rs) =
     (case consumption r of
        Fin q \<Rightarrow> is_double (acc + q) \<and> exact_from (acc + q) rs
      | _ \<Rightarrow> False)"

definition exact_sums :: "reading list \<Rightarrow> bool" where
  "exact_sums rs = exact_from 0 rs"

text \<open>Every reading is a finite Number that is not negative.\<close>

definition nonneg_readings :: "reading list \<Rightarrow> bool" where
  "nonneg_readings rs = list_all (\<lambda>r. case consumption r of Fin q \<Rightarrow> 0 \<le> q | _ \<Rightarrow> False) rs"

text \<open>
  The bound on the rounding error of a sum of \<open>n\<close> readings whose exact sum is
  \<open>exact\<close>: each addition has a relative error of at most \<open>2\<^sup>-\<^sup>5\<^sup>3\<close>, and an absolute
  one of at most \<open>2\<^sup>-\<^sup>1\<^sup>0\<^sup>7\<^sup>5\<close> near zero.
\<close>

definition sum_error_bound :: "nat \<Rightarrow> rat \<Rightarrow> rat" where
  "sum_error_bound n exact = ((1 + 1 / 2 ^ 53) ^ n - 1) * (exact + 1 / 2 ^ 1022)"

text \<open>The exact sum stays far enough below the largest Number for no addition to overflow.\<close>

definition sum_in_range :: "nat \<Rightarrow> rat \<Rightarrow> bool" where
  "sum_in_range n exact \<longleftrightarrow> (1 + 1 / 2 ^ 53) ^ n * (exact + 1 / 2 ^ 1022) < 2 ^ 1023"

text \<open>
  Fixed-point notation with \<open>f\<close> decimals: digits, and for \<open>f > 0\<close> a point followed by
  exactly \<open>f\<close> digits; a minus sign may come first.
\<close>

definition unsigned_fixed :: "nat \<Rightarrow> string \<Rightarrow> bool" where
  "unsigned_fixed f s =
     (if f = 0 then s \<noteq> [] \<and> list_all is_digit s
      else f + 2 \<le> length s \<and>
           list_all is_digit (take (length s - f - 1) s) \<and>
           s ! (length s - f - 1) = CHR ''.'' \<and>
           list_all is_digit (drop (length s - f) s))"

definition fixed_notation :: "nat \<Rightarrow> string \<Rightarrow> bool" where
  "fixed_notation f s =
     (unsigned_fixed f s \<or>
      (case s of c # t \<Rightarrow> c = CHR ''-'' \<and> unsigned_fixed f t | [] \<Rightarrow> False))"

text \<open>
  A text has the form of a pattern when it has a digit wherever the pattern has one of
  the letters \<^verbatim>\<open>Y\<close>, \<^verbatim>\<open>M\<close>, \<^verbatim>\<open>D\<close>, \<^verbatim>\<open>H\<close>, \<^verbatim>\<open>m\<close>, \<^verbatim>\<open>s\<close>, and the character of the
  pattern everywhere else.
\<close>

fun has_form :: "string \<Rightarrow> string \<Rightarrow> bool" where
  "has_form [] [] = True"
| "has_form (p # ps) (c # cs) =
     ((if p \<in> set ''YMDHms'' then is_digit c else c = p) \<and> has_form ps cs)"
| "has_form _ _ = False"

text \<open>
  The number that a text in fixed-point notation with \<open>f\<close> decimals denotes: its digits
  read as an integer, divided by \<open>10\<^sup>f\<close>, negative after a minus sign.
\<close>

definition fixed_value :: "nat \<Rightarrow> string \<Rightarrow> rat" where
  "fixed_value f s =
     (case s of
        c # t \<Rightarrow>
          (if c = CHR ''-'' then - 1 else 1) * rat_of_nat (digits_value (filter is_digit s)) / 10 ^ f
      | [] \<Rightarrow> 0)"

text \<open>The Numbers that \<^verbatim>\<open>toFixed\<close> prints in fixed-point notation: finite and below \<open>10\<^sup>2\<^sup>1\<close>.\<close>

definition in_fixed_range :: "number \<Rightarrow> bool" where
  "in_fixed_range x = (case x of Fin r \<Rightarrow> \<bar>r\<bar> < 10 ^ 21 | _ \<Rightarrow> False)"

text \<open>
  A text shows a Number to \<open>f\<close> decimals when it is in fixed-point notation with \<open>f\<close>
  decimals and denotes a number at most half a unit of the last decimal away from it.
\<close>

definition shows_number :: "nat \<Rightarrow> number \<Rightarrow> string \<Rightarrow> bool" where
  "shows_number f x s =
     (case x of
        Fin r \<Rightarrow> fixed_notation f s \<and> \<bar>fixed_value f s - r\<bar> \<le> 1 / (2 * 10 ^ f)
      | _ \<Rightarrow> False)"

text \<open>The time that a text of the form \<^verbatim>\<open>YYYY-MM-DD HH:mm:ss UTC\<close> denotes.\<close>

definition read_timestamp :: "string \<Rightarrow> utc_time" where
  "read_timestamp s =
     \<lparr>year = digits_value (take 4 s),
      month = digits_value (take 2 (drop 5 s)),
      day = digits_value (take 2 (drop 8 s)),
      hour = digits_value (take 2 (drop 11 s)),
      minute = digits_value (take 2 (drop 14 s)),
      second = digits_value (take 2 (drop 17 s))\<rparr>"

section \<open>Example inputs\<close>

text \<open>Concrete responses, at which the properties below are evaluated.\<close>

definition example_runtime :: runtime where
  "example_runtime =
     \<lparr>Date_parse = (\<lambda>s. if s = ''2023-04-01T00:00:00Z'' then Fin 1680307200000
                        else if s = ''2024-04-01T00:00:00Z'' then Fin 1711929600000
                        else NaN),
      StringToNumber = (\<lambda>s. if s = ''350'' then Fin 350 else NaN),
      Number_toString = (\<lambda>r. if r = 350 then ''350'' else ''1e+21''),
      Cannot_read = (\<lambda>v p. ''Cannot read properties of '' @
        (if v = JNull then ''null'' else ''undefined'') @ '' (reading '' @ [CHR 0x27] @ p @
        [CHR 0x27] @ '')'')\<rparr>"

definition example_config :: config where
  "example_config =
     \<lparr>baseURL = ''https://api.octopus.energy/v1'', apiKey = ''sk_live_key'',
      mpan = ''1200012345678'', serialNumber = ''21L1234567''\<rparr>"

definition example_agreements :: "agreement list" where
  "example_agreements =
     [\<lparr>tariff_code = ''E-1R-VAR-22-11-01-A'', valid_from = JStr ''2022-04-01T00:00:00Z'',
       valid_to = JStr ''2023-04-01T00:00:00Z''\<rparr>,
      \<lparr>tariff_code = ''E-1R-AGILE-24-04-03-A'', valid_from = JStr ''2023-04-01T00:00:00Z'',
       valid_to = JStr ''2024-04-01T00:00:00Z''\<rparr>,
      \<lparr>tariff_code = ''E-1R-OE-FIX-12M-24-04-01-A'', valid_from = JStr ''2023-04-01T00:00:00Z'',
       valid_to = JStr ''2024-04-01T00:00:00Z''\<rparr>,
      \<lparr>tariff_code = ''E-1R-GO-VAR-22-10-14-A'', valid_from = JStr ''2024-04-01T00:00:00Z'',
       valid_to = JNull\<rparr>]"


definition example_proto_agreements :: "agreement list" where
  "example_proto_agreements =
     [\<lparr>tariff_code = ''E-1R-AGILE-24-04-03-_proto__'',
       valid_from = JStr ''2023-04-01T00:00:00Z'', valid_to = JNull\<rparr>]"

definition example_account :: "agreement list \<Rightarrow> account" where
  "example_account ags =
     \<lparr>properties =
        [\<lparr>electricity_meter_points = [\<lparr>point_mpan = ''1900000000001'', agreements = []\<rparr>]\<rparr>,
         \<lparr>electricity_meter_points = [\<lparr>point_mpan = ''1200012345678'', agreements = ags\<rparr>]\<rparr>]\<rparr>"

definition example_product :: "string \<Rightarrow> number \<Rightarrow> product" where
  "example_product region rate =
     \<lparr>display_name = ''Agile Octopus'',
      single_register_electricity_tariffs =
        [region \<mapsto>
           \<lparr>direct_debit_monthly =
              Some \<lparr>standard_unit_rate_inc_vat = rate, standing_charge_inc_vat = Fin 50\<rparr>\<rparr>]\<rparr>"

definition example_tariff_env :: "agreement list \<Rightarrow> string \<Rightarrow> number \<Rightarrow> tariff_env" where
  "example_tariff_env ags region rate =
     \<lparr>account_response = Inr (example_account ags),
      product_response = (\<lambda>productCode.
        if productCode = ''AGILE-24-04-03'' then Inr (example_product region rate)
        else Inl (Error ''Request failed with status code 404''))\<rparr>"

definition example_usage_env :: "number list \<Rightarrow> number \<Rightarrow> usage_env" where
  "example_usage_env kwh rate =
     \<lparr>consumption_response = Inr \<lparr>results = map (\<lambda>c. \<lparr>consumption = c\<rparr>) kwh\<rparr>,
      usage_tariff = example_tariff_env example_agreements ''_A'' rate\<rparr>"

definition example_live_env :: "jsprim \<Rightarrow> live_env" where
  "example_live_env d =
     \<lparr>token_response = Inr \<lparr>token = ''jwt'', refreshToken = ''refresh'', refreshExpiresIn = 604800\<rparr>,
      guid_response = (\<lambda>token. Inr \<lparr>electricityAgreements =
        Some [\<lparr>meterPoint = \<lparr>meters = Some [\<lparr>smartDevices =
          Some [\<lparr>deviceId = ''00-11-22-33-44-55-66-77''\<rparr>]\<rparr>]\<rparr>\<rparr>]\<rparr>),
      telemetry_response = (\<lambda>token meterGuid. Inr (Some
        [\<lparr>readAt = ''2024-03-01T12:00:00+00:00'', demand = d,
          telemetry_consumption = JNull\<rparr>]))\<rparr>"

definition example_report_env :: report_env where
  "example_report_env =
     \<lparr>live_responses = example_live_env (JStr ''350''),
      yesterday_responses = example_usage_env [Fin 10] (Fin 25),
      monthly_responses = example_usage_env [Fin 10, Fin 10] (Fin 25),
      tariff_responses = example_tariff_env example_agreements ''_A'' (Fin 25),
      now = \<lparr>year = 2024, month = 3, day = 1, hour = 9, minute = 5, second = 7\<rparr>\<rparr>"

definition example_failed_live_env :: live_env where
  "example_failed_live_env =
     (example_live_env JNull)\<lparr>token_response := Inl (Error ''Request failed with status code 401'')\<rparr>"

definition example_other_config :: config where
  "example_other_config = example_config\<lparr>mpan := ''1300000000000''\<rparr>"

definition example_failed_report_env :: report_env where
  "example_failed_report_env =
     example_report_env\<lparr>tariff_responses :=
       \<lparr>account_response = Inl (Error ''Network Error''),
        product_response = (\<lambda>productCode. Inl (Error ''Network Error''))\<rparr>\<rparr>"

text \<open>The responses of the report above, with a telemetry reading that has no demand field.\<close>

definition example_nan_report_env :: report_env where
  "example_nan_report_env = example_report_env\<lparr>live_responses := example_live_env JUndefined\<rparr>"

text \<open>The binary64 values nearest to 0.1, 0.2, 0.3, 0.004 and 0.008.\<close>

definition double_0_1 :: rat where
  "double_0_1 = 3602879701896397 / 2 ^ 55"

definition double_0_2 :: rat where
  "double_0_2 = 3602879701896397 / 2 ^ 54"

definition double_0_3 :: rat where
  "double_0_3 = 5404319552844595 / 2 ^ 54"

definition double_0_004 :: rat where
  "double_0_004 = 1152921504606847 / 2 ^ 58"

definition double_0_008 :: rat where
  "double_0_008 = 1152921504606847 / 2 ^ 57"

definition example_readings :: "reading list" where
  "example_readings =
     [\<lparr>consumption = Fin double_0_1\<rparr>, \<lparr>consumption = Fin double_0_2\<rparr>,
      \<lparr>consumption = Fin double_0_3\<rparr>]"

definition example_exact_readings :: "reading list" where
  "example_exact_readings =
     [\<lparr>consumption = Fin (1 / 4)\<rparr>, \<lparr>consumption = Fin (1 / 2)\<rparr>, \<lparr>consumption = Fin 1\<rparr>]"

section \<open>Properties\<close>

lemmas io_defs = io_bind_def try_catch_def after_def io_return_def throw_def await_def
  console_log_def console_error_def

lemmas example_defs = example_runtime_def example_config_def example_agreements_def
  example_account_def example_product_def example_tariff_env_def example_usage_env_def
  example_live_env_def example_report_env_def

subsection \<open>Rounding to binary64\<close>

lemma pow2_pos: "0 < pow2 e"
  by (simp add: pow2_def)

lemma pow2_Suc: "pow2 (e + 1) = 2 * pow2 e"
proof (cases "0 \<le> e")
  case True
  then show ?thesis
    by (simp add: pow2_def nat_add_distrib)
next
  case False
  then have "nat (- e) = Suc (nat (- (e + 1)))"
    by simp
  with False show ?thesis
    by (auto simp: pow2_def)
qed

lemma pow2_add_nat: "pow2 (e + int n) = 2 ^ n * pow2 e"
proof (induction n)
  case 0
  then show ?case by simp
next
  case (Suc n)
  have "e + int (Suc n) = e + int n + 1"
    by simp
  then have "pow2 (e + int (Suc n)) = pow2 (e + int n + 1)"
    by (rule arg_cong)
  with Suc show ?case
    by (simp add: pow2_Suc)
qed

lemma pow2_mono: "e \<le> e' \<Longrightarrow> pow2 e \<le> pow2 e'"
proof -
  assume "e \<le> e'"
  then have "e' = e + int (nat (e' - e))"
    by simp
  then have "pow2 e' = 2 ^ nat (e' - e) * pow2 e"
    using pow2_add_nat [of e "nat (e' - e)"] by simp
  moreover have "(1::rat) \<le> 2 ^ nat (e' - e)"
    by simp
  ultimately show ?thesis
    using pow2_pos [of e] by (simp add: mult_le_cancel_right1)
qed

lemma ilog2_bounds:
  assumes "0 < a"
  shows "pow2 (ilog2 a) \<le> a \<and> a < pow2 (ilog2 a + 1)"
proof (cases "1 \<le> a")
  case True
  define n where "n = nat \<lfloor>a\<rfloor>"
  define k where "k = floorlog 2 n"
  from True have n: "0 < n" "rat_of_nat n \<le> a" "a < rat_of_nat n + 1"
    unfolding n_def by (simp_all add: of_nat_nat) linarith+
  from floorlog_bounds [of n 2] n(1) have b: "2 ^ (k - 1) \<le> n" "n < 2 ^ k"
    by (simp_all add: k_def)
  from n(1) have k: "0 < k"
    by (simp add: k_def floorlog_def)
  have i: "ilog2 a = int k - 1"
    using True by (simp add: ilog2_def n_def k_def)
  have p1: "pow2 (int k - 1) = 2 ^ (k - 1)"
    using k by (simp add: pow2_def nat_diff_distrib)
  have p2: "pow2 (int k - 1 + 1) = 2 ^ k"
    by (simp add: pow2_def)
  from b(1) have "(2::rat) ^ (k - 1) \<le> rat_of_nat n"
    by simp
  with n(2) have lo: "(2::rat) ^ (k - 1) \<le> a"
    by linarith
  from b(2) have "Suc n \<le> 2 ^ k"
    by simp
  then have "rat_of_nat (Suc n) \<le> 2 ^ k"
    unfolding of_nat_le_numeral_power_cancel_iff .
  with n(3) have hi: "a < (2::rat) ^ k"
    by simp
  from lo hi show ?thesis
    unfolding i p1 p2 by simp
next
  case False
  define c where "c = \<lceil>1 / a\<rceil>"
  define n where "n = nat (c - 1)"
  define k where "k = floorlog 2 n"
  from False assms have big: "1 < 1 / a"
    by simp
  then have c2: "2 \<le> c"
    unfolding c_def by linarith
  have c: "1 / a \<le> of_int c" "of_int c - 1 < 1 / a"
    unfolding c_def by linarith+
  from c2 have n: "0 < n" "int n = c - 1"
    by (simp_all add: n_def)
  from floorlog_bounds [of n 2] n(1) have b: "2 ^ (k - 1) \<le> n" "n < 2 ^ k"
    by (simp_all add: k_def)
  from n(1) have k: "0 < k"
    by (simp add: k_def floorlog_def)
  have i: "ilog2 a = - int k"
    using False by (simp add: ilog2_def n_def k_def c_def)
  have p1: "pow2 (- int k) = 1 / 2 ^ k"
    using k by (simp add: pow2_def)
  have p2: "pow2 (- int k + 1) = 1 / 2 ^ (k - 1)"
  proof -
    from k have "nat (int k - 1) = k - 1"
      by simp
    then show ?thesis
      using k by (auto simp: pow2_def)
  qed
  have rn: "rat_of_nat n = of_int c - 1"
    using n(2) by (metis of_int_1 of_int_diff of_int_of_nat_eq)
  from b(2) have "Suc n \<le> 2 ^ k"
    by simp
  then have "rat_of_nat (Suc n) \<le> 2 ^ k"
    unfolding of_nat_le_numeral_power_cancel_iff .
  moreover have "rat_of_nat (Suc n) = of_int c"
    using rn by simp
  ultimately have "1 / a \<le> 2 ^ k"
    using c(1) by linarith
  with assms have lo: "1 / 2 ^ k \<le> a"
    by (simp add: field_simps)
  from b(1) have "(2::rat) ^ (k - 1) \<le> rat_of_nat n"
    by simp
  with rn c(2) have "2 ^ (k - 1) < 1 / a"
    by linarith
  with assms have hi: "a < 1 / 2 ^ (k - 1)"
    by (simp add: field_simps)
  from lo hi show ?thesis
    unfolding i p1 p2 by simp
qed

lemma round_half_even_near: "\<bar>q - of_int (round_half_even q)\<bar> \<le> 1 / 2"
proof -
  define f where "f = \<lfloor>q\<rfloor>"
  have f: "of_int f \<le> q" "q < of_int f + 1"
    unfolding f_def by linarith+
  consider "q - of_int f < 1 / 2" | "1 / 2 < q - of_int f" | "q - of_int f = 1 / 2"
    by linarith
  then show ?thesis
  proof cases
    case 1
    with f show ?thesis
      unfolding round_half_even_def Let_def f_def [symmetric] by simp
  next
    case 2
    with f show ?thesis
      unfolding round_half_even_def Let_def f_def [symmetric] by simp
  next
    case 3
    with f show ?thesis
      unfolding round_half_even_def Let_def f_def [symmetric] by simp
  qed
qed

text \<open>
  A finite result of \<open>round64\<close> is a multiple of the unit in the last place of its
  argument with a significand of at most 53 bits, and lies within half a unit of it.
\<close>

lemma round64_nearest:
  assumes "round64 x = Fin y" and "x \<noteq> 0"
  shows "\<exists>m. \<bar>y\<bar> = of_int m * pow2 (max (ilog2 \<bar>x\<bar> - 52) (- 1074)) \<and> 0 \<le> m \<and> m \<le> 2 ^ 53 \<and>
    \<bar>x - y\<bar> \<le> pow2 (max (ilog2 \<bar>x\<bar> - 52) (- 1074)) / 2"
proof -
  define e where "e = max (ilog2 \<bar>x\<bar> - 52) (- 1074)"
  define m where "m = round_half_even (\<bar>x\<bar> / pow2 e)"
  have pe: "0 < pow2 e"
    by (rule pow2_pos)
  from assms have y: "y = (if 0 < x then of_int m * pow2 e else - (of_int m * pow2 e))"
    by (auto simp: round64_def Let_def e_def m_def split: if_splits)
  have q: "0 \<le> \<bar>x\<bar> / pow2 e"
    using pe by simp
  have m0: "0 \<le> m"
  proof -
    from q have "0 \<le> \<lfloor>\<bar>x\<bar> / pow2 e\<rfloor>"
      by simp
    then show ?thesis
      unfolding m_def round_half_even_def Let_def by auto
  qed
  have near: "\<bar>\<bar>x\<bar> / pow2 e - of_int m\<bar> \<le> 1 / 2"
    unfolding m_def by (rule round_half_even_near)
  have "\<bar>x\<bar> - of_int m * pow2 e = (\<bar>x\<bar> / pow2 e - of_int m) * pow2 e"
    using pe by (simp add: left_diff_distrib)
  then have "\<bar>\<bar>x\<bar> - of_int m * pow2 e\<bar> = \<bar>\<bar>x\<bar> / pow2 e - of_int m\<bar> * pow2 e"
    using pe by (simp only: abs_mult abs_of_pos)
  also have "\<dots> \<le> 1 / 2 * pow2 e"
    using near pe by (intro mult_right_mono) simp_all
  finally have d: "\<bar>\<bar>x\<bar> - of_int m * pow2 e\<bar> \<le> pow2 e / 2"
    by simp
  have dist: "\<bar>x - y\<bar> \<le> pow2 e / 2"
    using d y by (auto simp: abs_if split: if_splits)
  have ay: "\<bar>y\<bar> = of_int m * pow2 e"
    using y m0 pe by (auto simp: abs_mult)
  have up: "m \<le> 2 ^ 53"
  proof -
    from ilog2_bounds [of "\<bar>x\<bar>"] assms(2) have "\<bar>x\<bar> < pow2 (ilog2 \<bar>x\<bar> + 1)"
      by simp
    moreover have "pow2 (ilog2 \<bar>x\<bar> + 1) \<le> pow2 (e + 53)"
      by (rule pow2_mono) (simp add: e_def)
    ultimately have "\<bar>x\<bar> < pow2 (e + 53)"
      by simp
    also have "pow2 (e + 53) = 2 ^ 53 * pow2 e"
      using pow2_add_nat [of e 53] by simp
    finally have "\<bar>x\<bar> / pow2 e < 2 ^ 53"
      using pe by (simp add: field_simps)
    then have "\<bar>x\<bar> / pow2 e < of_int (2 ^ 53)"
      by simp
    then have "\<lfloor>\<bar>x\<bar> / pow2 e\<rfloor> < 2 ^ 53"
      by (simp only: floor_less_iff)
    moreover have "m \<le> \<lfloor>\<bar>x\<bar> / pow2 e\<rfloor> + 1"
      unfolding m_def round_half_even_def Let_def by simp
    ultimately show ?thesis
      by linarith
  qed
  from ay m0 up dist show ?thesis
    unfolding e_def by blast
qed

subsection \<open>Parsing a tariff code\<close>

lemma split_not_Nil: "split sep s \<noteq> []"
  by (induction s) (auto split: list.splits)

lemma join_split: "join [sep] (split sep s) = s"
proof (induction s)
  case Nil
  then show ?case by simp
next
  case (Cons c s)
  then show ?case
    by (cases "split sep s"; cases "tl (split sep s)") (auto simp: split_not_Nil)
qed

lemma slice_2_m1: "slice 2 (- 1) xs = drop 2 (butlast xs)"
proof -
  have n: "nat (max (int (length xs) - 1) 0 - min 2 (int (length xs))) = length xs - 1 - 2"
    by (simp add: max_def min_def) arith
  have k: "nat (min 2 (int (length xs))) = min 2 (length xs)"
    by (simp add: min_def)
  have "slice 2 (- 1) xs = take (length xs - 1 - 2) (drop (min 2 (length xs)) xs)"
    unfolding slice_def Let_def using n k by simp
  also have "\<dots> = take (length xs - 1 - 2) (drop 2 xs)"
    by (cases "2 \<le> length xs") (simp_all add: min_def)
  also have "\<dots> = drop 2 (butlast xs)"
    by (simp add: butlast_conv_take drop_take)
  finally show ?thesis .
qed

lemma join_dash_joined: "join ''-'' parts = dash_joined parts"
  by (induction "''-''" parts rule: join.induct) (simp_all add: dash_joined_def)

lemma split_plain: "sep \<notin> set p \<Longrightarrow> split sep p = [p]"
  by (induction p) auto

lemma split_segment: "sep \<notin> set p \<Longrightarrow> split sep (p @ sep # rest) = p # split sep rest"
  by (induction p) auto

lemma split_segments_no_sep: "\<forall>p\<in>set (split sep s). sep \<notin> set p"
  by (induction s) (auto split: list.splits)

lemma split_dash_joined:
  "parts \<noteq> [] \<Longrightarrow> \<forall>p\<in>set parts. CHR ''-'' \<notin> set p \<Longrightarrow>
   split CHR ''-'' (dash_joined parts) = parts"
proof (induction parts)
  case Nil
  then show ?case by simp
next
  case (Cons p ps)
  show ?case
  proof (cases ps)
    case Nil
    with Cons.prems show ?thesis
      by (simp add: dash_joined_def split_plain)
  next
    case (Cons q qs)
    with Cons.prems Cons.IH have "split CHR ''-'' (dash_joined (q # qs)) = q # qs"
      by simp
    moreover have "dash_joined (p # q # qs) = p @ CHR ''-'' # dash_joined (q # qs)"
      by (simp add: dash_joined_def)
    ultimately show ?thesis
      using Cons.prems Cons by (simp add: split_segment)
  qed
qed

text \<open>
  Claim C5. A tariff code is its segments, none of which holds a \<^verbatim>\<open>-\<close>, written with
  a \<^verbatim>\<open>-\<close> between two of them, and every string is the code of one such list of
  segments. Parsing it gives, as product code, the segments without the first two and the
  last one, written with \<^verbatim>\<open>-\<close> between them again, and, as region letter, the last
  segment. The code \<^verbatim>\<open>E-1R-VAR-22-11-01-A\<close> parses to the product code
  \<^verbatim>\<open>VAR-22-11-01\<close> and the region letter \<^verbatim>\<open>A\<close>.
\<close>

theorem parseTariffCode_segments:
  "(parts \<noteq> [] \<and> (\<forall>p\<in>set parts. CHR ''-'' \<notin> set p) \<longrightarrow>
      parseTariffCode (dash_joined parts) = (dash_joined (drop 2 (butlast parts)), last parts)) \<and>
   (\<exists>parts. parts \<noteq> [] \<and> (\<forall>p\<in>set parts. CHR ''-'' \<notin> set p) \<and> dash_joined parts = code) \<and>
   parseTariffCode ''E-1R-VAR-22-11-01-A'' = (''VAR-22-11-01'', ''A'')"
proof (intro conjI impI)
  assume "parts \<noteq> [] \<and> (\<forall>p\<in>set parts. CHR ''-'' \<notin> set p)"
  then show "parseTariffCode (dash_joined parts) =
      (dash_joined (drop 2 (butlast parts)), last parts)"
    by (simp add: parseTariffCode_def Let_def slice_2_m1 split_dash_joined join_dash_joined)
next
  have "dash_joined (split CHR ''-'' code) = code"
    using join_split [of "CHR ''-''" code] by (simp add: join_dash_joined)
  then show "\<exists>parts. parts \<noteq> [] \<and> (\<forall>p\<in>set parts. CHR ''-'' \<notin> set p) \<and> dash_joined parts = code"
    using split_not_Nil split_segments_no_sep by blast
next
  show "parseTariffCode ''E-1R-VAR-22-11-01-A'' = (''VAR-22-11-01'', ''A'')"
    by (simp add: parseTariffCode_def Let_def slice_2_m1 split_not_Nil)
qed

theorem parseTariffCode_segments_witness:
  "dash_joined [''E'', ''1R'', ''VAR'', ''22'', ''11'', ''01'', ''A''] = ''E-1R-VAR-22-11-01-A'' \<and>
   parseTariffCode (dash_joined [''E'', ''1R'', ''VAR'', ''22'', ''11'', ''01'', ''A'']) =
     (''VAR-22-11-01'', ''A'')"
proof -
  let ?parts = "[''E'', ''1R'', ''VAR'', ''22'', ''11'', ''01'', ''A'']"
  have "?parts \<noteq> [] \<and> (\<forall>p\<in>set ?parts. CHR ''-'' \<notin> set p)"
    by simp
  with parseTariffCode_segments [of ?parts]
  have "parseTariffCode (dash_joined ?parts) = (dash_joined (drop 2 (butlast ?parts)), last ?parts)"
    by blast
  then show ?thesis
    by (simp add: dash_joined_def)
qed

subsection \<open>The current agreement\<close>

lemma num_gt_irrefl: "\<not> num_gt a a"
  by (cases a) simp_all

lemma num_gt_not_later:
  "num_gt x c \<Longrightarrow> \<not> num_gt y c \<Longrightarrow> \<not> num_gt y x"
  by (cases x; cases c; cases y) simp_all


lemma time_clip_cases: "time_clip t = NaN \<or> (\<exists>x. time_clip t = Fin x)"
  by (cases t) (simp_all add: time_clip_def)

lemma new_Date_cases: "new_Date rt v = NaN \<or> (\<exists>x. new_Date rt v = Fin x)"
  by (cases v) (simp_all add: time_clip_cases)

lemma new_Date_null: "new_Date rt JNull = Fin 0"
  by (simp add: time_clip_def)

lemma currentAgreement_snoc:
  "currentAgreement rt (xs @ [x]) = latest_of rt (currentAgreement rt xs) x"
  by (simp add: currentAgreement_def)

lemma currentAgreement_Nil: "currentAgreement rt [] = None"
  by (simp add: currentAgreement_def)

lemma currentAgreement_single: "currentAgreement rt [x] = Some x"
  by (simp add: currentAgreement_def latest_of_def)

lemma currentAgreement_none_later:
  "xs \<noteq> [] \<Longrightarrow>
   \<exists>c. currentAgreement rt xs = Some c \<and> c \<in> set xs \<and>
       (\<forall>x\<in>set xs. \<not> num_gt (new_Date rt (valid_to x)) (new_Date rt (valid_to c)))"
proof (induction xs rule: rev_induct)
  case Nil
  then show ?case by simp
next
  case (snoc x xs)
  show ?case
  proof (cases "xs = []")
    case True
    then show ?thesis
      by (simp add: currentAgreement_single num_gt_irrefl)
  next
    case False
    with snoc.IH obtain c where c: "currentAgreement rt xs = Some c" "c \<in> set xs"
      "\<forall>y\<in>set xs. \<not> num_gt (new_Date rt (valid_to y)) (new_Date rt (valid_to c))"
      by blast
    show ?thesis
    proof (cases "num_gt (new_Date rt (valid_to x)) (new_Date rt (valid_to c))")
      case True
      have "\<not> num_gt (new_Date rt (valid_to y)) (new_Date rt (valid_to x))" if "y \<in> set xs" for y
        using that c(3) True num_gt_not_later by blast
      then show ?thesis
        using c True by (simp add: currentAgreement_snoc latest_of_def num_gt_irrefl)
    next
      case False
      then show ?thesis
        using c by (auto simp: currentAgreement_snoc latest_of_def)
    qed
  qed
qed




text \<open>
  Claim C10. An agreement whose \<^verbatim>\<open>valid_to\<close> is \<^verbatim>\<open>null\<close> is compared as the epoch
  (time value 0). So whenever the list has an agreement with \<^verbatim>\<open>valid_to\<close> \<^verbatim>\<open>null\<close>
  and one whose \<^verbatim>\<open>valid_to\<close> is not \<^verbatim>\<open>null\<close> and is a date after the epoch, the
  agreement selected as current is not one with \<^verbatim>\<open>valid_to\<close> \<^verbatim>\<open>null\<close>.
\<close>

theorem null_valid_to_never_current:
  "new_Date rt JNull = Fin 0 \<and>
   ((\<exists>a\<in>set ags. valid_to a = JNull) \<and>
    (\<exists>b\<in>set ags. \<exists>t. valid_to b \<noteq> JNull \<and> new_Date rt (valid_to b) = Fin t \<and> 0 < t)
    \<longrightarrow> (\<exists>c. currentAgreement rt ags = Some c \<and> c \<in> set ags \<and> valid_to c \<noteq> JNull))"
proof (intro conjI impI)
  show "new_Date rt JNull = Fin 0"
    by (rule new_Date_null)
next
  assume h: "(\<exists>a\<in>set ags. valid_to a = JNull) \<and>
    (\<exists>b\<in>set ags. \<exists>t. valid_to b \<noteq> JNull \<and> new_Date rt (valid_to b) = Fin t \<and> 0 < t)"
  then obtain b t where b: "b \<in> set ags" "new_Date rt (valid_to b) = Fin t" "0 < t"
    by blast
  then have "ags \<noteq> []" by auto
  from currentAgreement_none_later [OF this, of rt] obtain c where
    c: "currentAgreement rt ags = Some c" "c \<in> set ags"
    "\<forall>x\<in>set ags. \<not> num_gt (new_Date rt (valid_to x)) (new_Date rt (valid_to c))"
    by blast
  have "valid_to c \<noteq> JNull"
  proof
    assume "valid_to c = JNull"
    then have "new_Date rt (valid_to c) = Fin 0"
      by (simp add: time_clip_def)
    with c(3) b show False by auto
  qed
  with c show "\<exists>c. currentAgreement rt ags = Some c \<and> c \<in> set ags \<and> valid_to c \<noteq> JNull"
    by blast
qed

theorem null_valid_to_never_current_witness:
  "list_ex (\<lambda>a. valid_to a = JNull) example_agreements \<and>
   (\<exists>c. currentAgreement example_runtime example_agreements = Some c \<and>
        c \<in> set example_agreements \<and> valid_to c \<noteq> JNull)"
proof -
  have a: "\<exists>a\<in>set example_agreements. valid_to a = JNull"
    by (simp add: example_defs)
  have b: "\<exists>b\<in>set example_agreements. \<exists>t. valid_to b \<noteq> JNull \<and>
      new_Date example_runtime (valid_to b) = Fin t \<and> 0 < t"
    by (simp add: example_defs time_clip_def)
  from null_valid_to_never_current [of example_runtime example_agreements] a b
  show ?thesis
    by (simp add: list_ex_iff)
qed

subsection \<open>Effects\<close>

lemma snd_after [simp]: "snd (after ls m) = snd m"
  by (cases m) (simp add: after_def)

lemma fst_after [simp]: "fst (after ls m) = ls @ fst m"
  by (cases m) (simp add: after_def)

lemma snd_io_bind:
  "snd (io_bind m f) = (case snd m of Inl e \<Rightarrow> Inl e | Inr x \<Rightarrow> snd (f x))"
  by (cases m; cases "snd m") (auto simp: io_bind_def)

lemma snd_try_catch:
  "snd (try_catch m h) = (case snd m of Inl e \<Rightarrow> snd (h e) | Inr x \<Rightarrow> Inr x)"
  by (cases m; cases "snd m") (auto simp: try_catch_def)

lemma fst_try_catch:
  "fst (try_catch m h) = (case snd m of Inl e \<Rightarrow> fst m @ fst (h e) | Inr x \<Rightarrow> fst m)"
  by (cases m; cases "snd m") (auto simp: try_catch_def)

lemma fst_io_bind:
  "fst (io_bind m f) = (case snd m of Inl e \<Rightarrow> fst m | Inr x \<Rightarrow> fst m @ fst (f x))"
  by (cases m; cases "snd m") (auto simp: io_bind_def)

lemma snd_simple [simp]:
  "snd (io_return x) = Inr x" "snd (throw e) = Inl e" "snd (await r) = r"
  "snd (console_log s) = Inr ()" "snd (console_error a b) = Inr ()"
  by (simp_all add: io_return_def throw_def await_def console_log_def console_error_def)

lemma fst_simple [simp]:
  "fst (io_return x) = []" "fst (throw e) = []" "fst (await r) = []"
  "fst (console_log s) = [Stdout s]" "fst (console_error a b) = [Stderr (a @ '' '' @ b)]"
  by (simp_all add: io_return_def throw_def await_def console_log_def console_error_def)

text \<open>Logging an error and throwing it again leaves the outcome as it was.\<close>

lemma snd_rethrow:
  "snd (try_catch m (\<lambda>error. io_bind (console_error a (message error)) (\<lambda>_. throw error))) = snd m"
  by (cases "snd m") (simp_all add: snd_try_catch snd_io_bind)

lemma snd_getTariffInfo: "snd (getTariffInfo rt cfg env) = snd (getTariffInfo_try rt cfg env)"
  by (simp add: getTariffInfo_def snd_rethrow)

lemma snd_getYesterdayUsage: "snd (getYesterdayUsage rt cfg env) = snd (usage_try rt cfg env)"
  by (simp add: getYesterdayUsage_def snd_rethrow)

lemma snd_getMonthlyUsage: "snd (getMonthlyUsage rt cfg env) = snd (usage_try rt cfg env)"
  by (simp add: getMonthlyUsage_def snd_rethrow)

lemma snd_getKrakenToken:
  "snd (getKrakenToken env) = map_sum id token (token_response env)"
  by (cases "token_response env") (simp_all add: getKrakenToken_def snd_io_bind snd_try_catch)

lemma snd_getLiveUsage:
  "snd (getLiveUsage rt env) =
     (case snd (getLiveUsage_try rt env) of Inl e \<Rightarrow> Inr (Fin 0) | Inr v \<Rightarrow> Inr v)"
  by (cases "snd (getLiveUsage_try rt env)")
    (simp_all add: getLiveUsage_def snd_io_bind snd_try_catch)

lemma last_fst_getLiveUsage:
  "snd (getLiveUsage_try rt env) = Inl e \<Longrightarrow>
   last (fst (getLiveUsage rt env)) =
     Stderr (emoji_cross @ '' Error fetching live usage: '' @ message e)"
  by (simp add: getLiveUsage_def fst_io_bind fst_try_catch snd_io_bind)

subsection \<open>The live usage\<close>

lemma snd_getMeterGuid:
  "snd (getMeterGuid env tok) =
     (case guid_response env tok of
        Inl e \<Rightarrow> Inl e
      | Inr response \<Rightarrow>
          (case electricityAgreements response of
             None \<Rightarrow> Inl (Error ''No active electricity agreements found'')
           | Some [] \<Rightarrow> Inl (Error ''No active electricity agreements found'')
           | Some (agreement0 # _) \<Rightarrow>
               (case meters (meterPoint agreement0) of
                  None \<Rightarrow> Inl (Error ''No active meters found'')
                | Some [] \<Rightarrow> Inl (Error ''No active meters found'')
                | Some (meter0 # _) \<Rightarrow>
                    (case smartDevices meter0 of
                       None \<Rightarrow> Inl (Error ''No smart devices found'')
                     | Some [] \<Rightarrow> Inl (Error ''No smart devices found'')
                     | Some (device0 # _) \<Rightarrow> Inr (deviceId device0)))))"
  by (simp add: getMeterGuid_def snd_io_bind snd_rethrow
      split: sum.splits option.splits list.splits)

lemma snd_getLiveUsage_try:
  "snd (getLiveUsage_try rt env) =
     (case snd (getKrakenToken env) of
        Inl e \<Rightarrow> Inl e
      | Inr tok \<Rightarrow>
          (case snd (getMeterGuid env tok) of
             Inl e \<Rightarrow> Inl e
           | Inr meterGuid \<Rightarrow>
               (case telemetry_response env tok meterGuid of
                  Inl e \<Rightarrow> Inl e
                | Inr None \<Rightarrow> Inl (Error ''No telemetry data available'')
                | Inr (Some []) \<Rightarrow> Inl (Error ''No telemetry data available'')
                | Inr (Some (t # _)) \<Rightarrow>
                    if demand t = JNull then Inr (Fin 0) else Inr (Number rt (demand t)))))"
  by (simp add: getLiveUsage_try_def snd_io_bind
      split: sum.splits option.splits list.splits)

text \<open>
  Claim C3. \<^verbatim>\<open>getLiveUsage\<close> never fails outward: it always returns a Number, and
  whenever the body of its \<^verbatim>\<open>try\<close> block throws, the error is caught, its message is
  the last line written to the console, and the result is 0. The body throws on an
  authentication failure (the token request is rejected), on a network fault of the
  device or telemetry request, on a missing device (no agreements, no meters or no
  smart devices) and on missing telemetry.
\<close>

theorem getLiveUsage_never_fails:
  "(\<exists>v. snd (getLiveUsage rt env) = Inr v) \<and>
   (\<forall>e. snd (getLiveUsage_try rt env) = Inl e \<longrightarrow>
        snd (getLiveUsage rt env) = Inr (Fin 0) \<and>
        last (fst (getLiveUsage rt env)) =
          Stderr (emoji_cross @ '' Error fetching live usage: '' @ message e)) \<and>
   (\<forall>e. token_response env = Inl e \<longrightarrow> snd (getLiveUsage_try rt env) = Inl e) \<and>
   (\<forall>tok e. snd (getKrakenToken env) = Inr tok \<and> guid_response env tok = Inl e \<longrightarrow>
        snd (getLiveUsage_try rt env) = Inl e) \<and>
   (\<forall>tok response. snd (getKrakenToken env) = Inr tok \<and> guid_response env tok = Inr response \<and>
        (electricityAgreements response = None \<or> electricityAgreements response = Some []) \<longrightarrow>
        snd (getLiveUsage_try rt env) = Inl (Error ''No active electricity agreements found'')) \<and>
   (\<forall>tok response a as. snd (getKrakenToken env) = Inr tok \<and>
        guid_response env tok = Inr response \<and> electricityAgreements response = Some (a # as) \<and>
        (meters (meterPoint a) = None \<or> meters (meterPoint a) = Some []) \<longrightarrow>
        snd (getLiveUsage_try rt env) = Inl (Error ''No active meters found'')) \<and>
   (\<forall>tok response a as m ms. snd (getKrakenToken env) = Inr tok \<and>
        guid_response env tok = Inr response \<and> electricityAgreements response = Some (a # as) \<and>
        meters (meterPoint a) = Some (m # ms) \<and>
        (smartDevices m = None \<or> smartDevices m = Some []) \<longrightarrow>
        snd (getLiveUsage_try rt env) = Inl (Error ''No smart devices found'')) \<and>
   (\<forall>tok guid e. snd (getKrakenToken env) = Inr tok \<and> snd (getMeterGuid env tok) = Inr guid \<and>
        telemetry_response env tok guid = Inl e \<longrightarrow>
        snd (getLiveUsage_try rt env) = Inl e) \<and>
   (\<forall>tok guid. snd (getKrakenToken env) = Inr tok \<and> snd (getMeterGuid env tok) = Inr guid \<and>
        (telemetry_response env tok guid = Inr None \<or>
         telemetry_response env tok guid = Inr (Some [])) \<longrightarrow>
        snd (getLiveUsage_try rt env) = Inl (Error ''No telemetry data available''))"
proof (intro conjI allI impI)
  show "\<exists>v. snd (getLiveUsage rt env) = Inr v"
    by (cases "snd (getLiveUsage_try rt env)") (simp_all add: snd_getLiveUsage)
next
  fix e assume "snd (getLiveUsage_try rt env) = Inl e"
  then show "snd (getLiveUsage rt env) = Inr (Fin 0)"
    by (simp add: snd_getLiveUsage)
next
  fix e assume "snd (getLiveUsage_try rt env) = Inl e"
  then show "last (fst (getLiveUsage rt env)) =
      Stderr (emoji_cross @ '' Error fetching live usage: '' @ message e)"
    by (rule last_fst_getLiveUsage)
next
  fix e assume "token_response env = Inl e"
  then show "snd (getLiveUsage_try rt env) = Inl e"
    by (simp add: snd_getLiveUsage_try snd_getKrakenToken)
next
  fix tok e assume "snd (getKrakenToken env) = Inr tok \<and> guid_response env tok = Inl e"
  then show "snd (getLiveUsage_try rt env) = Inl e"
    by (simp add: snd_getLiveUsage_try snd_getMeterGuid)
next
  fix tok response
  assume "snd (getKrakenToken env) = Inr tok \<and> guid_response env tok = Inr response \<and>
        (electricityAgreements response = None \<or> electricityAgreements response = Some [])"
  then show "snd (getLiveUsage_try rt env) = Inl (Error ''No active electricity agreements found'')"
    by (auto simp: snd_getLiveUsage_try snd_getMeterGuid)
next
  fix tok response a as
  assume "snd (getKrakenToken env) = Inr tok \<and>
        guid_response env tok = Inr response \<and> electricityAgreements response = Some (a # as) \<and>
        (meters (meterPoint a) = None \<or> meters (meterPoint a) = Some [])"
  then show "snd (getLiveUsage_try rt env) = Inl (Error ''No active meters found'')"
    by (auto simp: snd_getLiveUsage_try snd_getMeterGuid)
next
  fix tok response a as m ms
  assume "snd (getKrakenToken env) = Inr tok \<and>
        guid_response env tok = Inr response \<and> electricityAgreements response = Some (a # as) \<and>
        meters (meterPoint a) = Some (m # ms) \<and>
        (smartDevices m = None \<or> smartDevices m = Some [])"
  then show "snd (getLiveUsage_try rt env) = Inl (Error ''No smart devices found'')"
    by (auto simp: snd_getLiveUsage_try snd_getMeterGuid)
next
  fix tok guid e
  assume "snd (getKrakenToken env) = Inr tok \<and> snd (getMeterGuid env tok) = Inr guid \<and>
        telemetry_response env tok guid = Inl e"
  then show "snd (getLiveUsage_try rt env) = Inl e"
    by (simp add: snd_getLiveUsage_try)
next
  fix tok guid
  assume "snd (getKrakenToken env) = Inr tok \<and> snd (getMeterGuid env tok) = Inr guid \<and>
        (telemetry_response env tok guid = Inr None \<or>
         telemetry_response env tok guid = Inr (Some []))"
  then show "snd (getLiveUsage_try rt env) = Inl (Error ''No telemetry data available'')"
    by (auto simp: snd_getLiveUsage_try)
qed

theorem getLiveUsage_never_fails_witness:
  "snd (getLiveUsage example_runtime example_failed_live_env) = Inr (Fin 0) \<and>
   last (fst (getLiveUsage example_runtime example_failed_live_env)) =
     Stderr (emoji_cross @ '' Error fetching live usage: Request failed with status code 401'')"
proof -
  have "token_response example_failed_live_env = Inl (Error ''Request failed with status code 401'')"
    by (simp add: example_failed_live_env_def)
  with getLiveUsage_never_fails [of example_runtime example_failed_live_env]
  have "snd (getLiveUsage_try example_runtime example_failed_live_env) =
      Inl (Error ''Request failed with status code 401'')"
    by blast
  with getLiveUsage_never_fails [of example_runtime example_failed_live_env]
  show ?thesis
    by simp
qed

text \<open>
  Claim C6, as amended. When the demand field of the telemetry reading is \<^verbatim>\<open>null\<close>,
  the live usage is the number 0: a warning is logged, no error is thrown, and the
  report prints the value as \<^verbatim>\<open>0\<close>. (A reading without a demand field is not covered:
  see the counterexample.)
\<close>

theorem null_demand_is_zero:
  assumes "snd (getKrakenToken env) = Inr tok"
    and "snd (getMeterGuid env tok) = Inr guid"
    and "telemetry_response env tok guid = Inr (Some (t # ts))"
    and "demand t = JNull"
  shows "getLiveUsage_try rt env =
           (fst (getKrakenToken env) @ fst (getMeterGuid env tok) @
              [Stdout (emoji_warning @ '' No demand data available, returning 0'')],
            Inr (Fin 0)) \<and>
         snd (getLiveUsage rt env) = Inr (Fin 0) \<and>
         toFixed rt (Fin 0) 0 = ''0''"
proof (intro conjI)
  show "getLiveUsage_try rt env =
           (fst (getKrakenToken env) @ fst (getMeterGuid env tok) @
              [Stdout (emoji_warning @ '' No demand data available, returning 0'')],
            Inr (Fin 0))"
    using assms
    by (simp add: getLiveUsage_try_def prod_eq_iff snd_io_bind fst_io_bind)
  show "snd (getLiveUsage rt env) = Inr (Fin 0)"
    using assms by (simp add: snd_getLiveUsage snd_getLiveUsage_try)
  show "toFixed rt (Fin 0) 0 = ''0''"
    by (simp add: toFixed_def round_half_up_def decimal.simps digit_char_def)
qed

theorem null_demand_is_zero_witness:
  "demand (hd (the (projr (telemetry_response (example_live_env JNull) ''jwt''
      ''00-11-22-33-44-55-66-77'')))) = JNull \<and>
   snd (getLiveUsage example_runtime (example_live_env JNull)) = Inr (Fin 0) \<and>
   last (fst (getLiveUsage_try example_runtime (example_live_env JNull))) =
     Stdout (emoji_warning @ '' No demand data available, returning 0'')"
proof -
  let ?t = "\<lparr>readAt = ''2024-03-01T12:00:00+00:00'', demand = JNull,
      telemetry_consumption = JNull\<rparr>"
  have 1: "snd (getKrakenToken (example_live_env JNull)) = Inr ''jwt''"
    by (simp add: snd_getKrakenToken example_live_env_def)
  have 2: "snd (getMeterGuid (example_live_env JNull) ''jwt'') = Inr ''00-11-22-33-44-55-66-77''"
    by (simp add: snd_getMeterGuid example_live_env_def)
  have 3: "telemetry_response (example_live_env JNull) ''jwt'' ''00-11-22-33-44-55-66-77'' =
      Inr (Some (?t # []))"
    by (simp add: example_live_env_def)
  have 4: "demand ?t = JNull"
    by simp
  from null_demand_is_zero [OF 1 2 3 4, of example_runtime] 3 show ?thesis
    by simp
qed

text \<open>
  The claim as it was stated also covers a reading whose demand field is missing. There
  the comparison with \<^verbatim>\<open>null\<close> is false, \<^verbatim>\<open>Number(undefined)\<close> is \<^verbatim>\<open>NaN\<close>, and
  the report prints \<^verbatim>\<open>NaN\<close>.
\<close>

theorem missing_demand_counterexample:
  "snd (getLiveUsage example_runtime (example_live_env JUndefined)) = Inr NaN \<and>
   toFixed example_runtime NaN 0 = ''NaN''"
  by (simp add: snd_getLiveUsage snd_getLiveUsage_try snd_getKrakenToken snd_getMeterGuid
      example_live_env_def toFixed_def)

subsection \<open>Failures of the tariff resolution\<close>

lemma find_mpan_None:
  "(\<forall>p\<in>set ps. \<forall>e\<in>set (electricity_meter_points p). point_mpan e \<noteq> m) \<Longrightarrow>
   find (\<lambda>p. list_ex (\<lambda>e. point_mpan e = m) (electricity_meter_points p)) ps = None"
  by (auto simp: find_None_iff list_ex_iff)

lemma snd_getTariffInfo_try:
  "snd (getTariffInfo_try rt cfg env) =
     (case account_response env of
        Inl e \<Rightarrow> Inl e
      | Inr accountRes \<Rightarrow>
     (case find (\<lambda>p. list_ex (\<lambda>e. point_mpan e = mpan cfg) (electricity_meter_points p))
            (properties accountRes) of
       None \<Rightarrow> Inl (Error (''MPAN '' @ mpan cfg @ '' not found in any property''))
     | Some propertyWithMpan \<Rightarrow>
         (case find (\<lambda>e. point_mpan e = mpan cfg) (electricity_meter_points propertyWithMpan) of
            None \<Rightarrow> Inl (TypeError (Cannot_read rt JUndefined ''agreements''))
          | Some mpanPoint \<Rightarrow>
              (case currentAgreement rt (agreements mpanPoint) of
                 None \<Rightarrow> Inl (TypeError (Cannot_read rt JNull ''tariff_code''))
               | Some current \<Rightarrow>
                   (case product_response env (fst (parseTariffCode (tariff_code current))) of
                      Inl e \<Rightarrow> Inl e
                    | Inr productRes \<Rightarrow>
                        (case get_property (single_register_electricity_tariffs productRes)
                                (''_'' @ snd (parseTariffCode (tariff_code current))) of
                          NoProperty \<Rightarrow>
                            Inl (TypeError (Cannot_read rt JUndefined ''direct_debit_monthly''))
                        | Inherited \<Rightarrow>
                            Inl (TypeError
                              (Cannot_read rt JUndefined ''standard_unit_rate_inc_vat''))
                        | Own regionTariff \<Rightarrow>
                            (case direct_debit_monthly regionTariff of
                               None \<Rightarrow>
                                 Inl (TypeError
                                   (Cannot_read rt JUndefined ''standard_unit_rate_inc_vat''))
                             | Some details \<Rightarrow>
                                 Inr
                                   \<lparr>name = display_name productRes,
                                    unit_rate = toFixed rt (div100 (standard_unit_rate_inc_vat details)) 4,
                                    standing_charge =
                                      toFixed rt (div100 (standing_charge_inc_vat details)) 2\<rparr>)))))))"
  by (simp add: getTariffInfo_try_def snd_io_bind split_beta
      split: sum.splits option.splits lookup.splits)

lemma get_property_None:
  "obj key = None \<Longrightarrow>
   get_property obj key = (if key \<in> set Object_prototype_names then Inherited else NoProperty)"
  by (simp add: get_property_def)

lemma get_property_Own: "get_property obj key = Own v \<longleftrightarrow> obj key = Some v"
  by (simp add: get_property_def split: option.splits)

text \<open>
  Claim C2, as amended. \<^verbatim>\<open>getTariffInfo\<close> fails, and returns no tariff, whenever no
  property of the account has a meter point with the configured MPAN, or the matching
  meter point has an empty list of agreements, or the tariff table of the product fetched
  has no entry for the region letter parsed. Only the first failure is an error that
  the program throws itself, the Error that says that the MPAN was not found; the other
  two are the TypeError of the runtime for reading a property of \<^verbatim>\<open>null\<close> (the tariff
  code of no agreement) or of \<^verbatim>\<open>undefined\<close> (the payment method of no entry or, when
  the key is a name that every object inherits, the unit rate of no payment method).
\<close>

theorem getTariffInfo_not_found:
  "(\<forall>accountRes. account_response env = Inr accountRes \<and>
      (\<forall>p\<in>set (properties accountRes). \<forall>e\<in>set (electricity_meter_points p).
         point_mpan e \<noteq> mpan cfg) \<longrightarrow>
      snd (getTariffInfo rt cfg env) =
        Inl (Error (''MPAN '' @ mpan cfg @ '' not found in any property''))) \<and>
   (\<forall>accountRes p e. account_response env = Inr accountRes \<and>
      find (\<lambda>p. list_ex (\<lambda>e. point_mpan e = mpan cfg) (electricity_meter_points p))
        (properties accountRes) = Some p \<and>
      find (\<lambda>e. point_mpan e = mpan cfg) (electricity_meter_points p) = Some e \<and>
      agreements e = [] \<longrightarrow>
      snd (getTariffInfo rt cfg env) = Inl (TypeError (Cannot_read rt JNull ''tariff_code''))) \<and>
   (\<forall>accountRes p e current productRes. account_response env = Inr accountRes \<and>
      find (\<lambda>p. list_ex (\<lambda>e. point_mpan e = mpan cfg) (electricity_meter_points p))
        (properties accountRes) = Some p \<and>
      find (\<lambda>e. point_mpan e = mpan cfg) (electricity_meter_points p) = Some e \<and>
      currentAgreement rt (agreements e) = Some current \<and>
      product_response env (fst (parseTariffCode (tariff_code current))) = Inr productRes \<and>
      single_register_electricity_tariffs productRes
        (''_'' @ snd (parseTariffCode (tariff_code current))) = None \<longrightarrow>
      snd (getTariffInfo rt cfg env) =
        Inl (TypeError (Cannot_read rt JUndefined
          (if ''_'' @ snd (parseTariffCode (tariff_code current)) \<in> set Object_prototype_names
           then ''standard_unit_rate_inc_vat'' else ''direct_debit_monthly''))))"
  by (simp add: snd_getTariffInfo snd_getTariffInfo_try find_mpan_None currentAgreement_Nil
      get_property_None)

theorem getTariffInfo_not_found_witness:
  "snd (getTariffInfo example_runtime example_other_config
          (example_tariff_env example_agreements ''_A'' (Fin 25))) =
     Inl (Error ''MPAN 1300000000000 not found in any property'') \<and>
   snd (getTariffInfo example_runtime example_config (example_tariff_env [] ''_A'' (Fin 25))) =
     Inl (TypeError (Cannot_read example_runtime JNull ''tariff_code'')) \<and>
   snd (getTariffInfo example_runtime example_config
          (example_tariff_env example_agreements ''_B'' (Fin 25))) =
     Inl (TypeError (Cannot_read example_runtime JUndefined ''direct_debit_monthly'')) \<and>
   snd (getTariffInfo example_runtime example_config
          (example_tariff_env example_proto_agreements ''_B'' (Fin 25))) =
     Inl (TypeError (Cannot_read example_runtime JUndefined ''standard_unit_rate_inc_vat''))"
proof (intro conjI)
  let ?env = "example_tariff_env example_agreements ''_A'' (Fin 25)"
  have "account_response ?env = Inr (example_account example_agreements) \<and>
      (\<forall>p\<in>set (properties (example_account example_agreements)).
         \<forall>e\<in>set (electricity_meter_points p). point_mpan e \<noteq> mpan example_other_config)"
    by (simp add: example_defs example_other_config_def)
  with getTariffInfo_not_found [of ?env example_other_config example_runtime]
  show "snd (getTariffInfo example_runtime example_other_config ?env) =
     Inl (Error ''MPAN 1300000000000 not found in any property'')"
    by (simp add: example_other_config_def example_config_def)
next
  let ?env = "example_tariff_env [] ''_A'' (Fin 25)"
  let ?e = "\<lparr>point_mpan = ''1200012345678'', agreements = []\<rparr>"
  let ?p = "\<lparr>electricity_meter_points = [?e]\<rparr>"
  have "account_response ?env = Inr (example_account []) \<and>
      find (\<lambda>p. list_ex (\<lambda>e. point_mpan e = mpan example_config) (electricity_meter_points p))
        (properties (example_account [])) = Some ?p \<and>
      find (\<lambda>e. point_mpan e = mpan example_config) (electricity_meter_points ?p) = Some ?e \<and>
      agreements ?e = []"
    by (simp add: example_defs)
  with getTariffInfo_not_found [of ?env example_config example_runtime]
  show "snd (getTariffInfo example_runtime example_config ?env) =
     Inl (TypeError (Cannot_read example_runtime JNull ''tariff_code''))"
    by blast
next
  let ?env = "example_tariff_env example_agreements ''_B'' (Fin 25)"
  let ?e = "\<lparr>point_mpan = ''1200012345678'', agreements = example_agreements\<rparr>"
  let ?p = "\<lparr>electricity_meter_points = [?e]\<rparr>"
  let ?c = "\<lparr>tariff_code = ''E-1R-AGILE-24-04-03-A'', valid_from = JStr ''2023-04-01T00:00:00Z'',
           valid_to = JStr ''2024-04-01T00:00:00Z''\<rparr>"
  have c: "currentAgreement example_runtime example_agreements = Some ?c"
    by (simp add: example_defs currentAgreement_def latest_of_def time_clip_def)
  have p: "parseTariffCode (tariff_code ?c) = (''AGILE-24-04-03'', ''A'')"
    by (simp add: parseTariffCode_def slice_def)
  have "account_response ?env = Inr (example_account example_agreements) \<and>
      find (\<lambda>p. list_ex (\<lambda>e. point_mpan e = mpan example_config) (electricity_meter_points p))
        (properties (example_account example_agreements)) = Some ?p \<and>
      find (\<lambda>e. point_mpan e = mpan example_config) (electricity_meter_points ?p) = Some ?e \<and>
      currentAgreement example_runtime (agreements ?e) = Some ?c \<and>
      product_response ?env (fst (parseTariffCode (tariff_code ?c))) =
        Inr (example_product ''_B'' (Fin 25)) \<and>
      single_register_electricity_tariffs (example_product ''_B'' (Fin 25))
        (''_'' @ snd (parseTariffCode (tariff_code ?c))) = None"
    unfolding p using c
    by (simp add: example_account_def example_tariff_env_def example_product_def
        example_config_def)
  with getTariffInfo_not_found [of ?env example_config example_runtime]
  have "snd (getTariffInfo example_runtime example_config ?env) =
     Inl (TypeError (Cannot_read example_runtime JUndefined
          (if ''_'' @ snd (parseTariffCode (tariff_code ?c)) \<in> set Object_prototype_names
           then ''standard_unit_rate_inc_vat'' else ''direct_debit_monthly'')))"
    by blast
  then show "snd (getTariffInfo example_runtime example_config ?env) =
     Inl (TypeError (Cannot_read example_runtime JUndefined ''direct_debit_monthly''))"
    unfolding p by (simp add: Object_prototype_names_def)
next
  let ?env = "example_tariff_env example_proto_agreements ''_B'' (Fin 25)"
  let ?e = "\<lparr>point_mpan = ''1200012345678'', agreements = example_proto_agreements\<rparr>"
  let ?p = "\<lparr>electricity_meter_points = [?e]\<rparr>"
  let ?c = "\<lparr>tariff_code = ''E-1R-AGILE-24-04-03-_proto__'',
           valid_from = JStr ''2023-04-01T00:00:00Z'', valid_to = JNull\<rparr>"
  have c: "currentAgreement example_runtime example_proto_agreements = Some ?c"
    by (simp add: example_proto_agreements_def currentAgreement_def latest_of_def)
  have p: "parseTariffCode (tariff_code ?c) = (''AGILE-24-04-03'', ''_proto__'')"
    by (simp add: parseTariffCode_def slice_def)
  have "account_response ?env = Inr (example_account example_proto_agreements) \<and>
      find (\<lambda>p. list_ex (\<lambda>e. point_mpan e = mpan example_config) (electricity_meter_points p))
        (properties (example_account example_proto_agreements)) = Some ?p \<and>
      find (\<lambda>e. point_mpan e = mpan example_config) (electricity_meter_points ?p) = Some ?e \<and>
      currentAgreement example_runtime (agreements ?e) = Some ?c \<and>
      product_response ?env (fst (parseTariffCode (tariff_code ?c))) =
        Inr (example_product ''_B'' (Fin 25)) \<and>
      single_register_electricity_tariffs (example_product ''_B'' (Fin 25))
        (''_'' @ snd (parseTariffCode (tariff_code ?c))) = None"
    unfolding p using c
    by (simp add: example_account_def example_tariff_env_def example_product_def
        example_config_def)
  with getTariffInfo_not_found [of ?env example_config example_runtime]
  have "snd (getTariffInfo example_runtime example_config ?env) =
     Inl (TypeError (Cannot_read example_runtime JUndefined
          (if ''_'' @ snd (parseTariffCode (tariff_code ?c)) \<in> set Object_prototype_names
           then ''standard_unit_rate_inc_vat'' else ''direct_debit_monthly'')))"
    by blast
  then show "snd (getTariffInfo example_runtime example_config ?env) =
     Inl (TypeError (Cannot_read example_runtime JUndefined ''standard_unit_rate_inc_vat''))"
    unfolding p by (simp add: Object_prototype_names_def)
qed

text \<open>
  The claim as it was stated has a NotFound error in all three cases. With an empty
  list of agreements the error is not one that the program throws for a record that it
  did not find: the \<^verbatim>\<open>reduce\<close> returns \<^verbatim>\<open>null\<close>, and reading its \<^verbatim>\<open>tariff_code\<close>
  makes the runtime throw a TypeError.
\<close>

theorem getTariffInfo_not_found_counterexample:
  "snd (getTariffInfo example_runtime example_config (example_tariff_env [] ''_A'' (Fin 25))) =
     Inl (TypeError ''Cannot read properties of null (reading 'tariff_code')'') \<and>
   \<not> thrown_by_program (TypeError ''Cannot read properties of null (reading 'tariff_code')'')"
  by (simp add: snd_getTariffInfo snd_getTariffInfo_try example_tariff_env_def
      example_account_def example_config_def currentAgreement_Nil example_runtime_def
      thrown_by_program_def)

subsection \<open>The status message never throws\<close>

lemma snd_usage_try:
  "snd (usage_try rt cfg env) =
     (case consumption_response env of
        Inl e \<Rightarrow> Inl e
      | Inr response \<Rightarrow>
          (case snd (getTariffInfo rt cfg (usage_tariff env)) of
             Inl e \<Rightarrow> Inl e
           | Inr tariff \<Rightarrow>
               Inr \<lparr>usage = totalUsage (results response),
                    cost = num_mul (totalUsage (results response))
                             (parseFloat (unit_rate tariff))\<rparr>))"
  by (simp add: usage_try_def snd_io_bind split: sum.splits)

lemma snd_generateStatusMessage:
  "snd (generateStatusMessage rt cfg env) =
     (case snd (generateStatusMessage_try rt cfg env) of
        Inl e \<Rightarrow> Inr error_text
      | Inr s \<Rightarrow> Inr s)"
  by (cases "snd (generateStatusMessage_try rt cfg env)")
    (simp_all add: generateStatusMessage_def snd_try_catch snd_io_bind)

lemma snd_generateStatusMessage_try:
  "snd (generateStatusMessage_try rt cfg env) =
     (case snd (getLiveUsage rt (live_responses env)) of
        Inl e \<Rightarrow> Inl e
      | Inr liveUsage \<Rightarrow>
     (case snd (getYesterdayUsage rt cfg (yesterday_responses env)) of
        Inl e \<Rightarrow> Inl e
      | Inr yesterday \<Rightarrow>
     (case snd (getMonthlyUsage rt cfg (monthly_responses env)) of
        Inl e \<Rightarrow> Inl e
      | Inr monthly \<Rightarrow>
     (case snd (getTariffInfo rt cfg (tariff_responses env)) of
        Inl e \<Rightarrow> Inl e
      | Inr tariff \<Rightarrow>
          Inr (status_text rt liveUsage yesterday monthly tariff (now env))))))"
  by (simp add: generateStatusMessage_try_def snd_io_bind split: sum.splits)

text \<open>
  Claim C4. \<^verbatim>\<open>generateStatusMessage\<close> never throws: it always returns a text, and
  whenever the tariff resolution or one of the two consumption aggregations fails (the
  consumption request or the tariff resolution inside it), the text is exactly the fixed
  message, a cross mark followed by ``Error fetching data. Please try again later.''
\<close>

theorem generateStatusMessage_never_throws:
  "(\<exists>text. snd (generateStatusMessage rt cfg env) = Inr text) \<and>
   (\<forall>e. snd (getYesterdayUsage rt cfg (yesterday_responses env)) = Inl e \<or>
        snd (getMonthlyUsage rt cfg (monthly_responses env)) = Inl e \<or>
        snd (getTariffInfo rt cfg (tariff_responses env)) = Inl e \<or>
        consumption_response (yesterday_responses env) = Inl e \<or>
        consumption_response (monthly_responses env) = Inl e \<or>
        snd (getTariffInfo rt cfg (usage_tariff (yesterday_responses env))) = Inl e \<or>
        snd (getTariffInfo rt cfg (usage_tariff (monthly_responses env))) = Inl e \<longrightarrow>
        snd (generateStatusMessage rt cfg env) = Inr error_text) \<and>
   error_text = [CHR 0xE2, CHR 0x9D, CHR 0x8C] @ '' Error fetching data. Please try again later.''"
proof (intro conjI allI impI)
  show "\<exists>text. snd (generateStatusMessage rt cfg env) = Inr text"
    by (cases "snd (generateStatusMessage_try rt cfg env)")
      (simp_all add: snd_generateStatusMessage)
next
  fix e
  assume "snd (getYesterdayUsage rt cfg (yesterday_responses env)) = Inl e \<or>
        snd (getMonthlyUsage rt cfg (monthly_responses env)) = Inl e \<or>
        snd (getTariffInfo rt cfg (tariff_responses env)) = Inl e \<or>
        consumption_response (yesterday_responses env) = Inl e \<or>
        consumption_response (monthly_responses env) = Inl e \<or>
        snd (getTariffInfo rt cfg (usage_tariff (yesterday_responses env))) = Inl e \<or>
        snd (getTariffInfo rt cfg (usage_tariff (monthly_responses env))) = Inl e"
  then have "\<exists>e'. snd (generateStatusMessage_try rt cfg env) = Inl e'"
    by (auto simp: snd_generateStatusMessage_try snd_getYesterdayUsage snd_getMonthlyUsage
        snd_usage_try split: sum.splits)
  then show "snd (generateStatusMessage rt cfg env) = Inr error_text"
    by (auto simp: snd_generateStatusMessage)
next
  show "error_text = [CHR 0xE2, CHR 0x9D, CHR 0x8C] @ '' Error fetching data. Please try again later.''"
    by (simp add: error_text_def emoji_cross_def)
qed

theorem generateStatusMessage_never_throws_witness:
  "snd (getTariffInfo example_runtime example_config (tariff_responses example_failed_report_env)) =
     Inl (Error ''Network Error'') \<and>
   snd (generateStatusMessage example_runtime example_config example_failed_report_env) =
     Inr ([CHR 0xE2, CHR 0x9D, CHR 0x8C] @ '' Error fetching data. Please try again later.'')"
proof -
  have "snd (getTariffInfo example_runtime example_config
      (tariff_responses example_failed_report_env)) = Inl (Error ''Network Error'')"
    by (simp add: snd_getTariffInfo snd_getTariffInfo_try example_failed_report_env_def)
  with generateStatusMessage_never_throws [of example_runtime example_config
      example_failed_report_env]
  show ?thesis
    by simp
qed

subsection \<open>The sum of the readings\<close>

lemma exact_from_foldl:
  "exact_from acc rs \<Longrightarrow>
   foldl (\<lambda>sum reading. num_add sum (consumption reading)) (Fin acc) rs =
     Fin (acc + sum_list (map reading_kwh rs))"
proof (induction rs arbitrary: acc)
  case Nil
  then show ?case by simp
next
  case (Cons r rs)
  then obtain q where q: "consumption r = Fin q" "is_double (acc + q)" "exact_from (acc + q) rs"
    by (auto split: number.splits)
  from q(1,2) have "num_add (Fin acc) (consumption r) = Fin (acc + q)"
    by (simp add: is_double_def)
  with Cons.IH [OF q(3)] q(1) show ?case
    by (simp add: reading_kwh_def add.assoc)
qed

lemma exact_sums_total: "exact_sums rs \<Longrightarrow> totalUsage rs = Fin (sum_list (map reading_kwh rs))"
  using exact_from_foldl [of 0 rs] by (simp add: exact_sums_def totalUsage_def)

lemma sum_list_reading_kwh: "mset xs = mset ys \<Longrightarrow> sum_list (map reading_kwh xs) = sum_list (map reading_kwh ys)"
proof -
  assume "mset xs = mset ys"
  then have "sum_mset (image_mset reading_kwh (mset xs)) = sum_mset (image_mset reading_kwh (mset ys))"
    by simp
  then show ?thesis
    by (simp add: sum_mset_sum_list [symmetric])
qed

lemma pow2_strict: "pow2 a \<le> x \<Longrightarrow> x < pow2 b \<Longrightarrow> a < b"
proof (rule ccontr)
  assume "pow2 a \<le> x" "x < pow2 b" "\<not> a < b"
  then have "pow2 b \<le> pow2 a"
    by (intro pow2_mono) simp
  with \<open>pow2 a \<le> x\<close> \<open>x < pow2 b\<close> show False
    by simp
qed

lemma round64_error:
  assumes "round64 x = Fin y"
  shows "\<bar>x - y\<bar> \<le> \<bar>x\<bar> * (1 / 2 ^ 53) + (1 / 2 ^ 53) * (1 / 2 ^ 1022)"
proof (cases "x = 0")
  case True
  with assms show ?thesis
    by (simp add: round64_def)
next
  case False
  define L where "L = ilog2 \<bar>x\<bar>"
  from round64_nearest [OF assms False]
  have d: "\<bar>x - y\<bar> \<le> pow2 (max (L - 52) (- 1074)) / 2"
    unfolding L_def by blast
  from ilog2_bounds [of "\<bar>x\<bar>"] False have lo: "pow2 L \<le> \<bar>x\<bar>"
    by (simp add: L_def)
  have "pow2 (L - 52 + int 52) = 2 ^ 52 * pow2 (L - 52)"
    by (rule pow2_add_nat)
  then have p: "pow2 (L - 52) = pow2 L / 2 ^ 52"
    by simp
  have m: "pow2 (- 1074) = 1 / 2 ^ 1074"
    by (simp add: pow2_def)
  have u: "(1::rat) / 2 ^ 53 = 1 / 2 ^ 52 / 2" "(1::rat) / 2 ^ 53 * (1 / 2 ^ 1022) = 1 / 2 ^ 1074 / 2"
    by simp_all
  show ?thesis
  proof (cases "- 1074 \<le> L - 52")
    case True
    then have "max (L - 52) (- 1074) = L - 52"
      by simp
    then have "pow2 (max (L - 52) (- 1074)) / 2 = pow2 L / 2 ^ 52 / 2"
      by (simp only: p)
    also have "\<dots> \<le> \<bar>x\<bar> / 2 ^ 52 / 2"
      using lo by (simp add: divide_right_mono)
    also have "\<dots> = \<bar>x\<bar> * (1 / 2 ^ 53)"
      by simp
    finally show ?thesis
      using d by simp
  next
    case False
    then have "max (L - 52) (- 1074) = - 1074"
      by simp
    then have "pow2 (max (L - 52) (- 1074)) / 2 = 1 / 2 ^ 1074 / 2"
      by (simp only: m)
    with d u(2) have "\<bar>x - y\<bar> \<le> (1 / 2 ^ 53) * (1 / 2 ^ 1022)"
      by simp
    moreover have "0 \<le> \<bar>x\<bar> * (1 / 2 ^ 53)"
      by simp
    ultimately show ?thesis
      by linarith
  qed
qed

lemma round64_nonneg: "0 \<le> x \<Longrightarrow> round64 x = Fin y \<Longrightarrow> 0 \<le> y"
proof -
  assume x: "0 \<le> x" and r: "round64 x = Fin y"
  show ?thesis
  proof (cases "x = 0")
    case True
    with r show ?thesis by (simp add: round64_def)
  next
    case False
    from round64_nearest [OF r False] obtain m where
      m: "\<bar>y\<bar> = of_int m * pow2 (max (ilog2 \<bar>x\<bar> - 52) (- 1074))" "0 \<le> m"
      by blast
    from r False x have "y = of_int (round_half_even (\<bar>x\<bar> / pow2 (max (ilog2 \<bar>x\<bar> - 52) (- 1074)))) *
        pow2 (max (ilog2 \<bar>x\<bar> - 52) (- 1074))"
      by (auto simp: round64_def Let_def split: if_splits)
    moreover have "0 \<le> round_half_even (\<bar>x\<bar> / pow2 (max (ilog2 \<bar>x\<bar> - 52) (- 1074)))"
    proof -
      have "0 \<le> \<bar>x\<bar> / pow2 (max (ilog2 \<bar>x\<bar> - 52) (- 1074))"
        using pow2_pos [of "max (ilog2 \<bar>x\<bar> - 52) (- 1074)"] by simp
      then have "0 \<le> \<lfloor>\<bar>x\<bar> / pow2 (max (ilog2 \<bar>x\<bar> - 52) (- 1074))\<rfloor>"
        by simp
      then show ?thesis
        unfolding round_half_even_def Let_def by auto
    qed
    ultimately show ?thesis
      using pow2_pos [of "max (ilog2 \<bar>x\<bar> - 52) (- 1074)"] by simp
  qed
qed

lemma round64_finite:
  assumes "\<bar>x\<bar> < 2 ^ 1023"
  shows "\<exists>y. round64 x = Fin y"
proof (cases "x = 0")
  case True
  then show ?thesis by (simp add: round64_def)
next
  case False
  have "pow2 1023 = 2 ^ 1023"
    by (simp add: pow2_def)
  with assms have "\<bar>x\<bar> < pow2 1023"
    by simp
  moreover from ilog2_bounds [of "\<bar>x\<bar>"] False have "pow2 (ilog2 \<bar>x\<bar>) \<le> \<bar>x\<bar>"
    by simp
  ultimately have "ilog2 \<bar>x\<bar> < 1023"
    by (rule pow2_strict [rotated])
  then have "max (ilog2 \<bar>x\<bar> - 52) (- 1074) < 971"
    by simp
  then show ?thesis
    using False by (cases "0 < x") (auto simp: round64_def Let_def abs_if)
qed

lemma totalUsage_snoc: "totalUsage (rs @ [r]) = num_add (totalUsage rs) (consumption r)"
  by (simp add: totalUsage_def)

lemma nonneg_readings_snoc:
  "nonneg_readings (rs @ [r]) \<longleftrightarrow> nonneg_readings rs \<and> (\<exists>q. consumption r = Fin q \<and> 0 \<le> q)"
  by (auto simp: nonneg_readings_def split: number.splits)

lemma sum_kwh_snoc:
  "consumption r = Fin q \<Longrightarrow>
   sum_list (map reading_kwh (rs @ [r])) = sum_list (map reading_kwh rs) + q"
  by (simp add: reading_kwh_def)

lemma sum_kwh_nonneg: "nonneg_readings rs \<Longrightarrow> 0 \<le> sum_list (map reading_kwh rs)"
  by (induction rs) (auto simp: nonneg_readings_def reading_kwh_def split: number.splits)

lemma totalUsage_error:
  "nonneg_readings rs \<Longrightarrow> sum_in_range (length rs) (sum_list (map reading_kwh rs)) \<Longrightarrow>
   \<exists>s. totalUsage rs = Fin s \<and> 0 \<le> s \<and>
       \<bar>s - sum_list (map reading_kwh rs)\<bar> \<le>
         sum_error_bound (length rs) (sum_list (map reading_kwh rs))"
proof (induction rs rule: rev_induct)
  case Nil
  then show ?case
    by (simp add: totalUsage_def sum_error_bound_def)
next
  case (snoc r rs)
  define u :: rat where "u = 1 / 2 ^ 53"
  define c :: rat where "c = 1 / 2 ^ 1022"
  define k where "k = length rs"
  define S' where "S' = sum_list (map reading_kwh rs)"
  from snoc.prems(1) obtain q where q: "consumption r = Fin q" "0 \<le> q" and nn: "nonneg_readings rs"
    by (auto simp: nonneg_readings_snoc)
  define S where "S = S' + q"
  have S: "sum_list (map reading_kwh (rs @ [r])) = S"
    using sum_kwh_snoc [OF q(1), of rs] by (simp add: S_def S'_def)
  have u0: "0 < u" and c0: "0 < c"
    by (simp_all add: u_def c_def)
  have S'0: "0 \<le> S'"
    unfolding S'_def using nn by (rule sum_kwh_nonneg)
  have SS: "S' \<le> S" "0 \<le> S"
    using q(2) S'0 by (simp_all add: S_def)
  define P where "P = (1 + u) ^ k"
  have P1: "1 \<le> P"
    unfolding P_def using u0 by (intro one_le_power) simp
  have range: "(1 + u) * P * (S + c) < 2 ^ 1023"
    using snoc.prems(2) unfolding S sum_in_range_def
    by (simp add: u_def c_def P_def k_def mult.assoc)
  have "P * (S' + c) \<le> P * (S + c)"
    using SS(1) P1 by (intro mult_left_mono) simp_all
  also have "\<dots> \<le> (1 + u) * (P * (S + c))"
  proof -
    have "0 \<le> P * (S + c)"
      using P1 SS(2) c0 by simp
    then have "1 * (P * (S + c)) \<le> (1 + u) * (P * (S + c))"
      using u0 by (intro mult_right_mono) simp_all
    then show ?thesis by simp
  qed
  finally have le: "P * (S' + c) \<le> (1 + u) * P * (S + c)" "P * (S + c) \<le> (1 + u) * P * (S + c)"
    using \<open>P * (S + c) \<le> (1 + u) * (P * (S + c))\<close> by (simp_all add: mult.assoc)
  from le(1) range have "P * (S' + c) < 2 ^ 1023"
    by linarith
  then have "sum_in_range (length rs) (sum_list (map reading_kwh rs))"
    unfolding sum_in_range_def u_def c_def P_def k_def S'_def by simp
  from snoc.IH [OF nn this] obtain s where s: "totalUsage rs = Fin s" "0 \<le> s"
    "\<bar>s - S'\<bar> \<le> (P - 1) * (S' + c)"
    by (auto simp: sum_error_bound_def u_def c_def P_def k_def S'_def)
  define B where "B = (P - 1) * (S + c)"
  have "(P - 1) * (S' + c) \<le> (P - 1) * (S + c)"
    using SS(1) P1 by (intro mult_left_mono) simp_all
  with s(3) have e: "\<bar>s - S'\<bar> \<le> B"
    by (simp add: B_def)
  have B0: "0 \<le> B"
    using P1 SS(2) c0 by (simp add: B_def)
  define x where "x = s + q"
  have x0: "0 \<le> x"
    using s(2) q(2) by (simp add: x_def)
  have xS: "\<bar>x - S\<bar> \<le> B"
    using e by (simp add: x_def S_def)
  then have xle: "x \<le> S + B"
    by linarith
  have "S + B \<le> P * (S + c)"
  proof -
    have "P * (S + c) = (S + c) + B"
      by (simp add: B_def algebra_simps)
    with c0 show ?thesis
      by simp
  qed
  with xle le(2) range have "x < 2 ^ 1023"
    by linarith
  with x0 have "\<bar>x\<bar> < 2 ^ 1023"
    by simp
  from round64_finite [OF this] obtain t where t: "round64 x = Fin t"
    by blast
  have tot: "totalUsage (rs @ [r]) = Fin t"
    using s(1) q(1) t by (simp add: totalUsage_snoc x_def)
  have t0: "0 \<le> t"
    using x0 t by (rule round64_nonneg)
  from round64_error [OF t] x0 have "\<bar>x - t\<bar> \<le> x * u + u * c"
    by (simp add: u_def c_def)
  moreover have "x * u \<le> (S + B) * u"
    using xle u0 by (intro mult_right_mono) simp_all
  ultimately have "\<bar>x - t\<bar> \<le> (S + B) * u + u * c"
    by linarith
  with xS have "\<bar>t - S\<bar> \<le> (S + B) * u + u * c + B"
    by linarith
  also have "(S + B) * u + u * c + B = ((1 + u) * P - 1) * (S + c)"
    by (simp add: B_def algebra_simps)
  finally have "\<bar>t - S\<bar> \<le> ((1 + u) ^ Suc k - 1) * (S + c)"
    by (simp add: P_def)
  then have "\<bar>t - S\<bar> \<le> sum_error_bound (length (rs @ [r])) S"
    by (simp add: sum_error_bound_def u_def c_def k_def)
  with tot t0 show ?case
    unfolding S by blast
qed

lemma nonneg_readings_mset: "mset xs = mset ys \<Longrightarrow> nonneg_readings xs = nonneg_readings ys"
  by (auto simp: nonneg_readings_def list_all_iff dest: mset_eq_setD)

text \<open>
  Claim C8, as amended. The empty list sums to 0. The sum is the left-to-right fold of
  binary64 addition, so it is order-independent only up to rounding: for readings that
  are finite and not negative, whose exact sum \<open>E\<close> is in range, every order of the \<open>n\<close>
  readings gives a finite total within \<open>((1 + 2\<^sup>-\<^sup>5\<^sup>3)\<^sup>n - 1) (E + 2\<^sup>-\<^sup>1\<^sup>0\<^sup>2\<^sup>2)\<close> of \<open>E\<close>, and
  the totals of two orders differ by at most twice that. When no addition rounds (every
  running total is a binary64 value) the total is the exact sum, and two such orders of
  the same readings give the same total. (The totals of two orders can differ: see the
  counterexample.)
\<close>

theorem totalUsage_order_up_to_rounding:
  "totalUsage [] = Fin 0 \<and>
   (nonneg_readings xs \<and> mset ys = mset xs \<and>
    sum_in_range (length xs) (sum_list (map reading_kwh xs)) \<longrightarrow>
      (\<exists>s t. totalUsage xs = Fin s \<and> totalUsage ys = Fin t \<and>
         \<bar>s - sum_list (map reading_kwh xs)\<bar> \<le>
           sum_error_bound (length xs) (sum_list (map reading_kwh xs)) \<and>
         \<bar>t - sum_list (map reading_kwh xs)\<bar> \<le>
           sum_error_bound (length xs) (sum_list (map reading_kwh xs)) \<and>
         \<bar>s - t\<bar> \<le> 2 * sum_error_bound (length xs) (sum_list (map reading_kwh xs)))) \<and>
   (exact_sums xs \<longrightarrow> totalUsage xs = Fin (sum_list (map reading_kwh xs))) \<and>
   (exact_sums xs \<and> exact_sums ys \<and> mset ys = mset xs \<longrightarrow> totalUsage xs = totalUsage ys)"
proof (intro conjI impI)
  show "totalUsage [] = Fin 0"
    by (simp add: totalUsage_def)
next
  assume a: "nonneg_readings xs \<and> mset ys = mset xs \<and>
    sum_in_range (length xs) (sum_list (map reading_kwh xs))"
  define E where "E = sum_list (map reading_kwh xs)"
  define n where "n = length xs"
  from a have m: "mset ys = mset xs"
    by simp
  have E: "sum_list (map reading_kwh ys) = E"
    unfolding E_def using m by (rule sum_list_reading_kwh)
  have n: "length ys = n"
    unfolding n_def using m by (rule mset_eq_length)
  have ny: "nonneg_readings ys"
    using a nonneg_readings_mset [OF m] by simp
  from a totalUsage_error [of xs] obtain s where s: "totalUsage xs = Fin s"
    "\<bar>s - E\<bar> \<le> sum_error_bound n E"
    unfolding E_def n_def by blast
  from a have "sum_in_range (length ys) (sum_list (map reading_kwh ys))"
    unfolding E n by (simp add: E_def n_def)
  from totalUsage_error [OF ny this] obtain t where t: "totalUsage ys = Fin t"
    "\<bar>t - E\<bar> \<le> sum_error_bound n E"
    unfolding E n by blast
  from s(2) t(2) have "\<bar>s - t\<bar> \<le> 2 * sum_error_bound n E"
    by linarith
  with s t show "\<exists>s t. totalUsage xs = Fin s \<and> totalUsage ys = Fin t \<and>
         \<bar>s - sum_list (map reading_kwh xs)\<bar> \<le>
           sum_error_bound (length xs) (sum_list (map reading_kwh xs)) \<and>
         \<bar>t - sum_list (map reading_kwh xs)\<bar> \<le>
           sum_error_bound (length xs) (sum_list (map reading_kwh xs)) \<and>
         \<bar>s - t\<bar> \<le> 2 * sum_error_bound (length xs) (sum_list (map reading_kwh xs))"
    unfolding E_def n_def by blast
next
  assume "exact_sums xs"
  then show "totalUsage xs = Fin (sum_list (map reading_kwh xs))"
    by (rule exact_sums_total)
next
  assume a: "exact_sums xs \<and> exact_sums ys \<and> mset ys = mset xs"
  then have "sum_list (map reading_kwh ys) = sum_list (map reading_kwh xs)"
    by (intro sum_list_reading_kwh) simp
  with a show "totalUsage xs = totalUsage ys"
    by (simp add: exact_sums_total)
qed

lemma exact_examples:
  "is_double (1 / 4)" "is_double (3 / 4)" "is_double (7 / 4)" "is_double 1" "is_double (3 / 2)"
  by code_simp+

lemma add_examples:
  "num_add (Fin 0) (Fin double_0_1) = Fin double_0_1"
  "num_add (Fin double_0_1) (Fin double_0_2) = Fin (1351079888211149 / 2 ^ 52)"
  "num_add (Fin (1351079888211149 / 2 ^ 52)) (Fin double_0_3) = Fin (1351079888211149 / 2 ^ 51)"
  "num_add (Fin 0) (Fin double_0_3) = Fin double_0_3"
  "num_add (Fin double_0_3) (Fin double_0_2) = Fin (1 / 2)"
  "num_add (Fin (1 / 2)) (Fin double_0_1) = Fin (5404319552844595 / 2 ^ 53)"
  by code_simp+

lemma example_readings_sum:
  "sum_list (map reading_kwh example_readings) = 21617278211378381 / 2 ^ 55"
  by (simp add: example_readings_def reading_kwh_def double_0_1_def double_0_2_def double_0_3_def)

lemma example_readings_in_range:
  "sum_in_range 3 (21617278211378381 / 2 ^ 55)"
  by (simp add: sum_in_range_def power3_eq_cube)

theorem totalUsage_order_up_to_rounding_witness:
  "nonneg_readings example_readings \<and>
   sum_in_range (length example_readings) (sum_list (map reading_kwh example_readings)) \<and>
   totalUsage example_readings = Fin (1351079888211149 / 2 ^ 51) \<and>
   totalUsage (rev example_readings) = Fin (5404319552844595 / 2 ^ 53) \<and>
   \<bar>1351079888211149 / 2 ^ 51 - 5404319552844595 / 2 ^ 53\<bar> \<le>
     2 * sum_error_bound (length example_readings) (sum_list (map reading_kwh example_readings)) \<and>
   exact_sums example_exact_readings \<and> exact_sums (rev example_exact_readings) \<and>
   totalUsage example_exact_readings = Fin (7 / 4) \<and>
   totalUsage (rev example_exact_readings) = Fin (7 / 4)"
proof -
  have nn: "nonneg_readings example_readings"
    by (simp add: nonneg_readings_def example_readings_def double_0_1_def double_0_2_def
        double_0_3_def)
  have len: "length example_readings = 3"
    by (simp add: example_readings_def)
  have r: "sum_in_range (length example_readings) (sum_list (map reading_kwh example_readings))"
    unfolding len example_readings_sum by (rule example_readings_in_range)
  have a: "totalUsage example_readings = Fin (1351079888211149 / 2 ^ 51)"
    unfolding totalUsage_def example_readings_def
    by (simp only: foldl_Cons foldl_Nil reading.select_convs add_examples)
  have b: "totalUsage (rev example_readings) = Fin (5404319552844595 / 2 ^ 53)"
    unfolding totalUsage_def example_readings_def
    by (simp only: rev.simps append.simps foldl_Cons foldl_Nil reading.select_convs add_examples)
  have x: "exact_sums example_exact_readings"
    by (simp add: exact_sums_def example_exact_readings_def exact_examples)
  have y: "exact_sums (rev example_exact_readings)"
    by (simp add: exact_sums_def example_exact_readings_def exact_examples)
  have m: "mset (rev example_readings) = mset example_readings"
    "mset (rev example_exact_readings) = mset example_exact_readings"
    by simp_all
  from totalUsage_order_up_to_rounding [of example_readings "rev example_readings"] nn m(1) r
  obtain s t where st: "totalUsage example_readings = Fin s" "totalUsage (rev example_readings) = Fin t"
    "\<bar>s - t\<bar> \<le> 2 * sum_error_bound (length example_readings)
       (sum_list (map reading_kwh example_readings))"
    by blast
  from st(1) a have s: "s = 1351079888211149 / 2 ^ 51"
    by (simp only: number.inject)
  from st(2) b have t: "t = 5404319552844595 / 2 ^ 53"
    by (simp only: number.inject)
  from totalUsage_order_up_to_rounding [of example_exact_readings "rev example_exact_readings"]
    x y m(2)
  have "totalUsage example_exact_readings = Fin (sum_list (map reading_kwh example_exact_readings))"
    and "totalUsage example_exact_readings = totalUsage (rev example_exact_readings)"
    by blast+
  then have e: "totalUsage example_exact_readings = Fin (7 / 4)"
    "totalUsage (rev example_exact_readings) = Fin (7 / 4)"
    by (simp_all add: example_exact_readings_def reading_kwh_def)
  from nn r a b st(3) x y e show ?thesis
    unfolding s t by (intro conjI)
qed

text \<open>
  The claim as it was stated fails: the readings 0.1, 0.2 and 0.3 kWh sum to
  0.6000000000000001 in this order and to 0.6 in the reverse order, since binary64
  addition is not associative.
\<close>

lemma decimal_examples:
  "parseFloat ''0.1'' = Fin double_0_1" "parseFloat ''0.2'' = Fin double_0_2"
  "parseFloat ''0.3'' = Fin double_0_3"
  by code_simp+

theorem totalUsage_order_counterexample:
  "map consumption example_readings = [parseFloat ''0.1'', parseFloat ''0.2'', parseFloat ''0.3''] \<and>
   totalUsage example_readings = Fin (1351079888211149 / 2 ^ 51) \<and>
   totalUsage (rev example_readings) = Fin (5404319552844595 / 2 ^ 53) \<and>
   totalUsage example_readings \<noteq> totalUsage (rev example_readings)"
proof -
  have a: "totalUsage example_readings = Fin (1351079888211149 / 2 ^ 51)"
    unfolding totalUsage_def example_readings_def
    by (simp only: foldl_Cons foldl_Nil reading.select_convs add_examples)
  have b: "totalUsage (rev example_readings) = Fin (5404319552844595 / 2 ^ 53)"
    unfolding totalUsage_def example_readings_def
    by (simp only: rev.simps append.simps foldl_Cons foldl_Nil reading.select_convs add_examples)
  have c: "(1351079888211149 / 2 ^ 51 :: rat) \<noteq> 5404319552844595 / 2 ^ 53"
    by simp
  show ?thesis
    using a b c by (simp add: example_readings_def decimal_examples)
qed

subsection \<open>The cost of a period\<close>

lemma floor_rat_numeral [simp]:
  "\<lfloor>(numeral a :: rat) / numeral b\<rfloor> = numeral a div numeral b"
  using floor_divide_of_int_eq [of "numeral a" "numeral b", where ?'a = rat] by simp

lemma decimal_small: "n < 10 \<Longrightarrow> decimal n = [digit_char n]"
  by (simp add: decimal.simps)

lemma decimal_big: "10 \<le> n \<Longrightarrow> decimal n = decimal (n div 10) @ [digit_char (n mod 10)]"
  by (subst decimal.simps) simp

lemmas toFixed_eval = toFixed_def Let_def round_half_up_def decimal_small decimal_big
  digit_char_def

lemmas parseFloat_eval = parseFloat_def unsigned_literal_def Let_def is_digit_def is_space_def
  digits_value_def pow10_def exponent_part_def

lemma round64_0 [simp]: "round64 0 = Fin 0"
  by (simp add: round64_def)

lemma round64_half: "round64 (1 / 2) = Fin (1 / 2)"
  by code_simp

lemma example_currentAgreement:
  "currentAgreement example_runtime example_agreements =
     Some \<lparr>tariff_code = ''E-1R-AGILE-24-04-03-A'', valid_from = JStr ''2023-04-01T00:00:00Z'',
           valid_to = JStr ''2024-04-01T00:00:00Z''\<rparr>"
  by (simp add: example_defs currentAgreement_def latest_of_def time_clip_def)

lemma example_parseTariffCode:
  "parseTariffCode ''E-1R-AGILE-24-04-03-A'' = (''AGILE-24-04-03'', ''A'')"
  by (simp add: parseTariffCode_def slice_def)

lemma example_tariff:
  "snd (getTariffInfo example_runtime example_config
          (example_tariff_env example_agreements ''_A'' rate)) =
     Inr \<lparr>name = ''Agile Octopus'',
          unit_rate = toFixed example_runtime (div100 rate) 4,
          standing_charge = toFixed example_runtime (Fin (1 / 2)) 2\<rparr>"
  by (simp add: snd_getTariffInfo snd_getTariffInfo_try example_tariff_env_def
      example_account_def example_config_def example_currentAgreement example_parseTariffCode
      example_product_def round64_half get_property_def)

lemma example_usage:
  "snd (getYesterdayUsage example_runtime example_config (example_usage_env cs rate)) =
     Inr \<lparr>usage = totalUsage (map (\<lambda>c. \<lparr>consumption = c\<rparr>) cs),
          cost = num_mul (totalUsage (map (\<lambda>c. \<lparr>consumption = c\<rparr>) cs))
                   (parseFloat (toFixed example_runtime (div100 rate) 4))\<rparr>"
  by (simp add: snd_getYesterdayUsage snd_usage_try example_usage_env_def example_tariff)

lemma getTariffInfo_unit_rate:
  assumes "snd (getTariffInfo rt cfg env) = Inr tariff"
  shows "\<exists>productCode productRes region regionTariff details.
      product_response env productCode = Inr productRes \<and>
      single_register_electricity_tariffs productRes region = Some regionTariff \<and>
      direct_debit_monthly regionTariff = Some details \<and>
      unit_rate tariff = toFixed rt (div100 (standard_unit_rate_inc_vat details)) 4"
proof -
  from assms obtain productCode productRes region regionTariff details where
    "product_response env productCode = Inr productRes"
    "single_register_electricity_tariffs productRes region = Some regionTariff"
    "direct_debit_monthly regionTariff = Some details"
    "tariff = \<lparr>name = display_name productRes,
       unit_rate = toFixed rt (div100 (standard_unit_rate_inc_vat details)) 4,
       standing_charge = toFixed rt (div100 (standing_charge_inc_vat details)) 2\<rparr>"
    unfolding snd_getTariffInfo snd_getTariffInfo_try
    by (auto simp: get_property_Own split: sum.splits option.splits lookup.splits)
  then show ?thesis
    by (intro exI [of _ productCode] exI [of _ productRes] exI [of _ region]
        exI [of _ regionTariff] exI [of _ details]) simp
qed

text \<open>
  Claim C7, as amended. For every window that \<^verbatim>\<open>getYesterdayUsage\<close> or
  \<^verbatim>\<open>getMonthlyUsage\<close> returns, the usage is the sum of the readings as it is (it is
  not rounded to its display precision), the unit rate is the text of the rate in
  pounds with 4 decimals, and the cost is the binary64 product of that usage and of the
  Number that this text denotes; a usage of 10 kWh at the rate 0.2500 costs 2.5.
\<close>

theorem cost_is_usage_times_unit_rate:
  "snd (getYesterdayUsage rt cfg env) = Inr window \<or> snd (getMonthlyUsage rt cfg env) = Inr window
   \<longrightarrow>
   (\<exists>response tariff productCode productRes region regionTariff details.
      consumption_response env = Inr response \<and>
      snd (getTariffInfo rt cfg (usage_tariff env)) = Inr tariff \<and>
      product_response (usage_tariff env) productCode = Inr productRes \<and>
      single_register_electricity_tariffs productRes region = Some regionTariff \<and>
      direct_debit_monthly regionTariff = Some details \<and>
      unit_rate tariff = toFixed rt (div100 (standard_unit_rate_inc_vat details)) 4 \<and>
      usage window = totalUsage (results response) \<and>
      cost window = num_mul (usage window) (parseFloat (unit_rate tariff)))"
proof
  assume "snd (getYesterdayUsage rt cfg env) = Inr window \<or>
    snd (getMonthlyUsage rt cfg env) = Inr window"
  then have w: "snd (usage_try rt cfg env) = Inr window"
    by (simp add: snd_getYesterdayUsage snd_getMonthlyUsage)
  then obtain response tariff where r: "consumption_response env = Inr response"
    "snd (getTariffInfo rt cfg (usage_tariff env)) = Inr tariff"
    "window = \<lparr>usage = totalUsage (results response),
       cost = num_mul (totalUsage (results response)) (parseFloat (unit_rate tariff))\<rparr>"
    by (auto simp: snd_usage_try split: sum.splits)
  from getTariffInfo_unit_rate [OF r(2)] r show "\<exists>response tariff productCode productRes region
      regionTariff details.
      consumption_response env = Inr response \<and>
      snd (getTariffInfo rt cfg (usage_tariff env)) = Inr tariff \<and>
      product_response (usage_tariff env) productCode = Inr productRes \<and>
      single_register_electricity_tariffs productRes region = Some regionTariff \<and>
      direct_debit_monthly regionTariff = Some details \<and>
      unit_rate tariff = toFixed rt (div100 (standard_unit_rate_inc_vat details)) 4 \<and>
      usage window = totalUsage (results response) \<and>
      cost window = num_mul (usage window) (parseFloat (unit_rate tariff))"
    by auto
qed

lemma round64_examples:
  "round64 (1 / 4) = Fin (1 / 4)" "round64 2 = Fin 2" "round64 10 = Fin 10"
  "round64 (5 / 2) = Fin (5 / 2)"
  "round64 double_0_004 = Fin double_0_004"
  "round64 (double_0_004 * 2) = Fin double_0_008"
  by code_simp+

lemma toFixed_examples:
  "toFixed rt (Fin (1 / 4)) 4 = ''0.2500''" "toFixed rt (Fin 2) 4 = ''2.0000''"
  "toFixed rt (Fin (1 / 2)) 2 = ''0.50''"
  "toFixed rt (Fin 10) 2 = ''10.00''" "toFixed rt (Fin (5 / 2)) 2 = ''2.50''"
  "toFixed rt (Fin double_0_004) 2 = ''0.00''"
  "toFixed rt (Fin double_0_008) 2 = ''0.01''"
  by (simp_all add: toFixed_eval double_0_004_def double_0_008_def)

lemma parseFloat_examples:
  "parseFloat ''0.2500'' = Fin (1 / 4)" "parseFloat ''2.0000'' = Fin 2"
  "parseFloat ''0.00'' = Fin 0"
  by (simp_all add: parseFloat_eval round64_examples)

lemma example_usage_tariff:
  "usage_tariff (example_usage_env cs rate) = example_tariff_env example_agreements ''_A'' rate"
  by (simp add: example_usage_env_def)

theorem cost_is_usage_times_unit_rate_witness:
  "snd (getYesterdayUsage example_runtime example_config (example_usage_env [Fin 10] (Fin 25))) =
     Inr \<lparr>usage = Fin 10, cost = Fin (5 / 2)\<rparr> \<and>
   snd (getTariffInfo example_runtime example_config
          (usage_tariff (example_usage_env [Fin 10] (Fin 25)))) =
     Inr \<lparr>name = ''Agile Octopus'', unit_rate = ''0.2500'', standing_charge = ''0.50''\<rparr> \<and>
   num_mul (Fin 10) (parseFloat ''0.2500'') = Fin (5 / 2) \<and>
   formatUsageData example_runtime (Fin 10) (Fin (5 / 2)) =
     ''Usage: 10.00 kWh'' @ [CHR 0x0A] @ ''Cost: '' @ pound @ ''2.50''"
proof -
  let ?env = "example_usage_env [Fin 10] (Fin 25)"
  let ?w = "\<lparr>usage = Fin 10, cost = Fin (5 / 2)\<rparr>"
  let ?t = "\<lparr>name = ''Agile Octopus'', unit_rate = ''0.2500'', standing_charge = ''0.50''\<rparr>"
  have t: "snd (getTariffInfo example_runtime example_config (usage_tariff ?env)) = Inr ?t"
    by (simp add: example_usage_tariff example_tariff round64_examples toFixed_examples)
  have w: "snd (getYesterdayUsage example_runtime example_config ?env) = Inr ?w"
    by (simp add: example_usage totalUsage_def round64_examples toFixed_examples
        parseFloat_examples)
  from cost_is_usage_times_unit_rate [of example_runtime example_config ?env ?w] w
  obtain tariff where "snd (getTariffInfo example_runtime example_config (usage_tariff ?env)) =
      Inr tariff" "cost ?w = num_mul (usage ?w) (parseFloat (unit_rate tariff))"
    by blast
  with t have c: "num_mul (Fin 10) (parseFloat ''0.2500'') = Fin (5 / 2)"
    by simp
  have f: "formatUsageData example_runtime (Fin 10) (Fin (5 / 2)) =
     ''Usage: 10.00 kWh'' @ [CHR 0x0A] @ ''Cost: '' @ pound @ ''2.50''"
    by (simp add: formatUsageData_def toFixed_examples)
  from w t c f show ?thesis
    by (intro conjI)
qed

text \<open>
  The claim as it was stated takes the usage in its display precision too. One reading
  of 0.004 kWh at 200 pence: the usage is displayed as 0.00, and 0.00 times 2.0000 is
  0, but the cost is 0.008, displayed as 0.01.
\<close>

theorem cost_display_precision_counterexample:
  "snd (getYesterdayUsage example_runtime example_config
          (example_usage_env [Fin double_0_004] (Fin 200))) =
     Inr \<lparr>usage = Fin double_0_004, cost = Fin double_0_008\<rparr> \<and>
   snd (getTariffInfo example_runtime example_config
          (usage_tariff (example_usage_env [Fin double_0_004] (Fin 200)))) =
     Inr \<lparr>name = ''Agile Octopus'', unit_rate = ''2.0000'', standing_charge = ''0.50''\<rparr> \<and>
   toFixed example_runtime (Fin double_0_004) 2 = ''0.00'' \<and>
   num_mul (parseFloat (toFixed example_runtime (Fin double_0_004) 2)) (parseFloat ''2.0000'') =
     Fin 0 \<and>
   toFixed example_runtime (Fin double_0_008) 2 = ''0.01'' \<and>
   toFixed example_runtime (Fin 0) 2 = ''0.00''"
proof (intro conjI)
  show "snd (getYesterdayUsage example_runtime example_config
          (example_usage_env [Fin double_0_004] (Fin 200))) =
     Inr \<lparr>usage = Fin double_0_004, cost = Fin double_0_008\<rparr>"
    by (simp add: example_usage totalUsage_def round64_examples toFixed_examples
        parseFloat_examples)
  show "snd (getTariffInfo example_runtime example_config
          (usage_tariff (example_usage_env [Fin double_0_004] (Fin 200)))) =
     Inr \<lparr>name = ''Agile Octopus'', unit_rate = ''2.0000'', standing_charge = ''0.50''\<rparr>"
    by (simp add: example_usage_tariff example_tariff round64_examples toFixed_examples)
  show "toFixed example_runtime (Fin double_0_004) 2 = ''0.00''"
    by (rule toFixed_examples)
  show "num_mul (parseFloat (toFixed example_runtime (Fin double_0_004) 2))
      (parseFloat ''2.0000'') = Fin 0"
    by (simp add: toFixed_examples parseFloat_examples)
  show "toFixed example_runtime (Fin double_0_008) 2 = ''0.01''"
    by (rule toFixed_examples)
  show "toFixed example_runtime (Fin 0) 2 = ''0.00''"
    by (simp add: toFixed_eval)
qed

subsection \<open>The format of the status message\<close>

lemma digit_char_is_digit: "d < 10 \<Longrightarrow> is_digit (digit_char d)"
proof -
  assume "d < 10"
  then have "d = 0 \<or> d = 1 \<or> d = 2 \<or> d = 3 \<or> d = 4 \<or> d = 5 \<or> d = 6 \<or> d = 7 \<or> d = 8 \<or> d = 9"
    by arith
  then show ?thesis
    by (elim disjE) (simp_all add: digit_char_def is_digit_def)
qed

lemma decimal_digits: "list_all is_digit (decimal n)"
proof (induction n rule: decimal.induct)
  case (1 n)
  show ?case
  proof (cases "n < 10")
    case True
    then show ?thesis
      by (simp add: decimal_small digit_char_is_digit)
  next
    case False
    with 1 show ?thesis
      by (simp add: decimal_big digit_char_is_digit)
  qed
qed

lemma decimal_not_Nil: "decimal n \<noteq> []"
  by (cases "n < 10") (simp_all add: decimal_small decimal_big)

lemma length_decimal: "0 < w \<Longrightarrow> n < 10 ^ w \<Longrightarrow> length (decimal n) \<le> w"
proof (induction n arbitrary: w rule: decimal.induct)
  case (1 n)
  show ?case
  proof (cases "n < 10")
    case True
    with 1 show ?thesis
      by (simp add: decimal_small)
  next
    case False
    with "1.prems" obtain v where v: "w = Suc v" "0 < v"
      by (cases w; cases "w - 1") auto
    with "1.prems" have "n div 10 < 10 ^ v"
      by (simp add: less_mult_imp_div_less mult.commute)
    with "1.IH" [OF False v(2)] False v show ?thesis
      by (simp add: decimal_big)
  qed
qed

lemma unsigned_fixed_digits:
  assumes "list_all is_digit m" and "m \<noteq> []"
  shows "unsigned_fixed f
    (if f = 0 then m
     else take (length (if length m \<le> f then replicate (f + 1 - length m) CHR ''0'' @ m else m) - f)
            (if length m \<le> f then replicate (f + 1 - length m) CHR ''0'' @ m else m) @
          ''.'' @
          drop (length (if length m \<le> f then replicate (f + 1 - length m) CHR ''0'' @ m else m) - f)
            (if length m \<le> f then replicate (f + 1 - length m) CHR ''0'' @ m else m))"
proof (cases "f = 0")
  case True
  with assms show ?thesis
    by (simp add: unsigned_fixed_def)
next
  case False
  define m' where "m' = (if length m \<le> f then replicate (f + 1 - length m) CHR ''0'' @ m else m)"
  have zero: "is_digit CHR ''0''"
    by (simp add: is_digit_def)
  have d: "list_all is_digit m'"
    using assms(1) zero by (simp add: m'_def list_all_iff)
  have l: "f + 1 \<le> length m'"
    by (simp add: m'_def)
  define a where "a = take (length m' - f) m'"
  define b where "b = drop (length m' - f) m'"
  have la: "length a = length m' - f" and lb: "length b = f"
    using l by (simp_all add: a_def b_def)
  have da: "list_all is_digit a" and db: "list_all is_digit b"
    using d by (auto simp: a_def b_def list_all_iff dest: in_set_takeD in_set_dropD)
  have len: "length (a @ ''.'' @ b) - f - 1 = length a"
    using lb by simp
  have "unsigned_fixed f (a @ ''.'' @ b)"
    unfolding unsigned_fixed_def len
    using False la lb l da db by (simp add: nth_append)
  then show ?thesis
    using False by (simp add: a_def b_def m'_def)
qed

lemma toFixed_fixed_notation:
  assumes "\<bar>r\<bar> < 10 ^ 21"
  shows "fixed_notation f (toFixed rt (Fin r) f)"
proof -
  define m where "m = decimal (nat (round_half_up (\<bar>r\<bar> * 10 ^ f)))"
  define u where "u =
    (if f = 0 then m
     else take (length (if length m \<le> f then replicate (f + 1 - length m) CHR ''0'' @ m else m) - f)
            (if length m \<le> f then replicate (f + 1 - length m) CHR ''0'' @ m else m) @
          ''.'' @
          drop (length (if length m \<le> f then replicate (f + 1 - length m) CHR ''0'' @ m else m) - f)
            (if length m \<le> f then replicate (f + 1 - length m) CHR ''0'' @ m else m))"
  have u: "unsigned_fixed f u"
    unfolding u_def by (rule unsigned_fixed_digits) (simp_all add: m_def decimal_digits decimal_not_Nil)
  have t: "toFixed rt (Fin r) f = (if r < 0 then ''-'' else []) @ u"
    using assms by (simp add: toFixed_def Let_def u_def m_def)
  from t u show ?thesis
    by (simp add: fixed_notation_def)
qed

lemma zeroFill_digits: "list_all is_digit (zeroFill n w)"
proof -
  have "is_digit CHR ''0''"
    by (simp add: is_digit_def)
  with decimal_digits [of n] show ?thesis
    by (auto simp: zeroFill_def list_all_iff)
qed

lemma length_zeroFill: "0 < w \<Longrightarrow> n < 10 ^ w \<Longrightarrow> length (zeroFill n w) = w"
  using length_decimal [of w n] by (simp add: zeroFill_def)

lemma has_form_digits:
  "list_all is_digit s \<Longrightarrow> length s = length p \<Longrightarrow> set p \<subseteq> set ''YMDHms'' \<Longrightarrow>
   has_form (p @ ps) (s @ cs) = has_form ps cs"
proof (induction p arbitrary: s)
  case Nil
  then show ?case by simp
next
  case (Cons a p)
  then obtain c t where s: "s = c # t"
    by (cases s) auto
  with Cons.prems have "a \<in> set ''YMDHms''" "is_digit c"
    by auto
  with Cons.IH [of t] Cons.prems s show ?case
    by simp
qed

lemma has_form_2:
  assumes "list_all is_digit s" "length s = 2" "a \<in> set ''YMDHms''" "b \<in> set ''YMDHms''"
  shows "has_form (a # b # ps) (s @ cs) = has_form ps cs"
  using has_form_digits [of s "[a, b]" ps cs] assms by simp

lemma has_form_4:
  assumes "list_all is_digit s" "length s = 4" "a \<in> set ''YMDHms''" "b \<in> set ''YMDHms''"
    "c \<in> set ''YMDHms''" "d \<in> set ''YMDHms''"
  shows "has_form (a # b # c # d # ps) (s @ cs) = has_form ps cs"
  using has_form_digits [of s "[a, b, c, d]" ps cs] assms by simp

lemma formatTimestamp_form:
  assumes "year t < 10000" "month t < 100" "day t < 100" "hour t < 100" "minute t < 100"
    "second t < 100"
  shows "has_form ''YYYY-MM-DD HH:mm:ss UTC'' (formatTimestamp t)"
proof -
  have four: "length (zeroFill (year t) 4) = 4"
    using assms(1) length_zeroFill [of 4 "year t"] by simp
  have two: "length (zeroFill n 2) = 2" if "n < 100" for n
    using that length_zeroFill [of 2 n] by simp
  show ?thesis
    unfolding formatTimestamp_def
    using assms by (simp add: has_form_2 has_form_4 zeroFill_digits four two)
qed

lemma digit_char_value: "d < 10 \<Longrightarrow> of_char (digit_char d) = 48 + d"
proof -
  assume "d < 10"
  then have "d = 0 \<or> d = 1 \<or> d = 2 \<or> d = 3 \<or> d = 4 \<or> d = 5 \<or> d = 6 \<or> d = 7 \<or> d = 8 \<or> d = 9"
    by arith
  then show ?thesis
    by (elim disjE) (simp_all add: digit_char_def)
qed

lemma digits_value_snoc: "digits_value (s @ [c]) = 10 * digits_value s + (of_char c - 48)"
  by (simp add: digits_value_def)

lemma digits_value_decimal: "digits_value (decimal n) = n"
proof (induction n rule: decimal.induct)
  case (1 n)
  show ?case
  proof (cases "n < 10")
    case True
    then show ?thesis
      by (simp add: decimal_small digits_value_def digit_char_value)
  next
    case False
    have "n mod 10 < 10"
      by simp
    then have "of_char (digit_char (n mod 10)) = 48 + n mod 10"
      by (rule digit_char_value)
    with 1 False show ?thesis
      by (simp add: decimal_big digits_value_snoc)
  qed
qed

lemma digits_value_zeros: "digits_value (replicate k CHR ''0'' @ s) = digits_value s"
  by (induction k) (simp_all add: digits_value_def)

lemma digits_value_zeroFill: "digits_value (zeroFill n w) = n"
  by (simp add: zeroFill_def digits_value_zeros digits_value_decimal)

lemma not_digit: "\<not> is_digit CHR ''-''" "\<not> is_digit CHR ''.''"
  by (simp_all add: is_digit_def)

lemma filter_digits: "list_all is_digit s \<Longrightarrow> filter is_digit s = s"
  by (simp add: list_all_iff)

lemma unsigned_fixed_first: "unsigned_fixed f u \<Longrightarrow> \<exists>c t. u = c # t \<and> is_digit c"
proof (cases u)
  case Nil
  assume "unsigned_fixed f u"
  with Nil show ?thesis
    by (simp add: unsigned_fixed_def split: if_splits)
next
  case (Cons c t)
  assume u: "unsigned_fixed f u"
  show ?thesis
  proof (cases "f = 0")
    case True
    with u Cons show ?thesis
      by (simp add: unsigned_fixed_def)
  next
    case False
    with u Cons have l: "f + 2 \<le> Suc (length t)"
      and d: "list_all is_digit (take (Suc (length t) - f - 1) (c # t))"
      by (simp_all add: unsigned_fixed_def)
    from l obtain k where "Suc (length t) - f - 1 = Suc k"
      by (cases "Suc (length t) - f - 1") auto
    with d have "is_digit c"
      by simp
    with Cons show ?thesis
      by simp
  qed
qed

lemma round_half_up_near: "0 \<le> q \<Longrightarrow> \<bar>rat_of_nat (nat (round_half_up q)) - q\<bar> \<le> 1 / 2"
proof -
  assume q: "0 \<le> q"
  define z where "z = \<lfloor>q + 1 / 2\<rfloor>"
  have "0 \<le> z"
    unfolding z_def using q by simp
  then have n: "rat_of_nat (nat z) = of_int z"
    by simp
  have "of_int z \<le> q + 1 / 2" "q + 1 / 2 < of_int z + 1"
    unfolding z_def by linarith+
  then have "\<bar>of_int z - q\<bar> \<le> 1 / 2"
    by linarith
  then show ?thesis
    unfolding round_half_up_def z_def [symmetric] n .
qed

lemma toFixed_shows_number:
  assumes "\<bar>r\<bar> < 10 ^ 21"
  shows "shows_number f (Fin r) (toFixed rt (Fin r) f)"
proof -
  define n where "n = nat (round_half_up (\<bar>r\<bar> * 10 ^ f))"
  define m where "m = decimal n"
  define m' where "m' = (if length m \<le> f then replicate (f + 1 - length m) CHR ''0'' @ m else m)"
  define u where "u = (if f = 0 then m else take (length m' - f) m' @ ''.'' @ drop (length m' - f) m')"
  have t: "toFixed rt (Fin r) f = (if r < 0 then ''-'' else []) @ u"
    using assms by (simp add: toFixed_def Let_def u_def m'_def m_def n_def)
  have fx: "fixed_notation f (toFixed rt (Fin r) f)"
    using assms by (rule toFixed_fixed_notation)
  have dm: "list_all is_digit m"
    unfolding m_def by (rule decimal_digits)
  have zero: "is_digit CHR ''0''"
    by (simp add: is_digit_def)
  have dm': "list_all is_digit m'"
    using dm zero by (simp add: m'_def list_all_iff)
  have vm': "digits_value m' = n"
    by (simp add: m'_def m_def digits_value_zeros digits_value_decimal)
  have "filter is_digit (take k m') = take k m'" "filter is_digit (drop k m') = drop k m'" for k
    using dm' by (auto simp: list_all_iff intro!: filter_True dest: in_set_takeD in_set_dropD)
  then have "filter is_digit (take k m' @ ''.'' @ drop k m') = m'" for k
    by (simp add: not_digit)
  then have fu: "filter is_digit u = (if f = 0 then m else m')"
    using dm by (simp add: u_def filter_digits)
  have vu: "digits_value (filter is_digit u) = n"
    unfolding fu using vm' by (simp add: m_def digits_value_decimal)
  have "unsigned_fixed f u"
    unfolding u_def m'_def by (rule unsigned_fixed_digits) (simp_all add: m_def decimal_digits decimal_not_Nil)
  then obtain c w where cw: "u = c # w" "is_digit c"
    using unsigned_fixed_first by blast
  then have c: "c \<noteq> CHR ''-''"
    using not_digit(1) by auto
  define N where "N = rat_of_nat n"
  have v: "fixed_value f (toFixed rt (Fin r) f) = (if r < 0 then - 1 else 1) * N / 10 ^ f"
  proof (cases "r < 0")
    case True
    then have "toFixed rt (Fin r) f = CHR ''-'' # u"
      by (simp add: t)
    then show ?thesis
      using True vu by (simp add: fixed_value_def not_digit N_def)
  next
    case False
    then have "toFixed rt (Fin r) f = c # w"
      by (simp add: t cw)
    then show ?thesis
      using False vu c cw(1) by (simp add: fixed_value_def N_def)
  qed
  define q where "q = \<bar>r\<bar> * 10 ^ f"
  have "0 \<le> q"
    by (simp add: q_def)
  then have near: "\<bar>N - q\<bar> \<le> 1 / 2"
    unfolding N_def n_def q_def by (rule round_half_up_near)
  have p: "(0::rat) < 10 ^ f"
    by simp
  have "N / 10 ^ f - \<bar>r\<bar> = (N - q) / 10 ^ f"
    by (simp add: q_def field_simps)
  then have "\<bar>N / 10 ^ f - \<bar>r\<bar>\<bar> = \<bar>N - q\<bar> / 10 ^ f"
    by (simp add: abs_divide)
  also have "\<dots> \<le> (1 / 2) / 10 ^ f"
    using near p by (intro divide_right_mono) simp_all
  finally have b: "\<bar>N / 10 ^ f - \<bar>r\<bar>\<bar> \<le> 1 / (2 * 10 ^ f)"
    by simp
  have "\<bar>fixed_value f (toFixed rt (Fin r) f) - r\<bar> = \<bar>N / 10 ^ f - \<bar>r\<bar>\<bar>"
    unfolding v by (cases "r < 0") simp_all
  with b fx show ?thesis
    by (simp add: shows_number_def)
qed

lemma toFixed_shows:
  "in_fixed_range x \<Longrightarrow> shows_number f x (toFixed rt x f)"
  by (cases x) (simp_all add: in_fixed_range_def toFixed_shows_number)

lemma take_length: "length a = n \<Longrightarrow> take n (a @ b) = a"
  by simp

lemma drop_length: "length a = n \<Longrightarrow> drop (Suc n) (a @ c # b) = b"
  by simp

lemma read_timestamp_format:
  assumes "year t < 10000" "month t < 100" "day t < 100" "hour t < 100" "minute t < 100"
    "second t < 100"
  shows "read_timestamp (formatTimestamp t) = t"
proof -
  define Y where "Y = zeroFill (year t) 4"
  define M where "M = zeroFill (month t) 2"
  define D where "D = zeroFill (day t) 2"
  define H where "H = zeroFill (hour t) 2"
  define I where "I = zeroFill (minute t) 2"
  define S where "S = zeroFill (second t) 2"
  have l: "length Y = 4" "length M = 2" "length D = 2" "length H = 2" "length I = 2" "length S = 2"
    using assms length_zeroFill [of 4 "year t"] length_zeroFill [of 2 "month t"]
      length_zeroFill [of 2 "day t"] length_zeroFill [of 2 "hour t"]
      length_zeroFill [of 2 "minute t"] length_zeroFill [of 2 "second t"]
    by (simp_all add: Y_def M_def D_def H_def I_def S_def)
  have v: "digits_value Y = year t" "digits_value M = month t" "digits_value D = day t"
    "digits_value H = hour t" "digits_value I = minute t" "digits_value S = second t"
    by (simp_all add: Y_def M_def D_def H_def I_def S_def digits_value_zeroFill)
  define r5 where "r5 = S @ '' UTC''"
  define r4 where "r4 = I @ CHR '':'' # r5"
  define r3 where "r3 = H @ CHR '':'' # r4"
  define r2 where "r2 = D @ CHR '' '' # r3"
  define r1 where "r1 = M @ CHR ''-'' # r2"
  have ts: "formatTimestamp t = Y @ CHR ''-'' # r1"
    by (simp add: formatTimestamp_def Y_def M_def D_def H_def I_def S_def r1_def r2_def r3_def
        r4_def r5_def)
  have d5: "drop 5 (formatTimestamp t) = r1"
    unfolding ts using drop_length [OF l(1)] by (simp add: eval_nat_numeral)
  have "drop 8 (formatTimestamp t) = drop 3 (drop 5 (formatTimestamp t))"
    by simp
  then have d8: "drop 8 (formatTimestamp t) = r2"
    unfolding d5 r1_def using drop_length [OF l(2)] by (simp add: eval_nat_numeral)
  have "drop 11 (formatTimestamp t) = drop 3 (drop 8 (formatTimestamp t))"
    by simp
  then have d11: "drop 11 (formatTimestamp t) = r3"
    unfolding d8 r2_def using drop_length [OF l(3)] by (simp add: eval_nat_numeral)
  have "drop 14 (formatTimestamp t) = drop 3 (drop 11 (formatTimestamp t))"
    by simp
  then have d14: "drop 14 (formatTimestamp t) = r4"
    unfolding d11 r3_def using drop_length [OF l(4)] by (simp add: eval_nat_numeral)
  have "drop 17 (formatTimestamp t) = drop 3 (drop 14 (formatTimestamp t))"
    by simp
  then have d17: "drop 17 (formatTimestamp t) = r5"
    unfolding d14 r4_def using drop_length [OF l(5)] by (simp add: eval_nat_numeral)
  have t4: "take 4 (formatTimestamp t) = Y"
    unfolding ts using l(1) by simp
  have t2: "take 2 r1 = M" "take 2 r2 = D" "take 2 r3 = H" "take 2 r4 = I" "take 2 r5 = S"
    using l by (simp_all add: r1_def r2_def r3_def r4_def r5_def)
  show ?thesis
    unfolding read_timestamp_def d5 d8 d11 d14 d17 t4 t2 v by simp
qed

lemma round64_more_examples:
  "round64 20 = Fin 20" "round64 5 = Fin 5"
  by code_simp+

lemma example_monthly:
  "snd (getMonthlyUsage example_runtime example_config (example_usage_env cs rate)) =
     Inr \<lparr>usage = totalUsage (map (\<lambda>c. \<lparr>consumption = c\<rparr>) cs),
          cost = num_mul (totalUsage (map (\<lambda>c. \<lparr>consumption = c\<rparr>) cs))
                   (parseFloat (toFixed example_runtime (div100 rate) 4))\<rparr>"
  by (simp add: snd_getMonthlyUsage snd_usage_try example_usage_env_def example_tariff)

text \<open>
  Claim C9, as amended. When the four calls succeed, the status message is the heading
  followed by the sections in this order: the live usage, yesterday's usage, the usage of
  the last 30 days, the tariff (name, unit rate, standing charge), and the line
  \<^verbatim>\<open>Last Updated:\<close> with the timestamp. Each of the five numbers of the report that
  is finite and below \<open>10\<^sup>2\<^sup>1\<close> in magnitude is shown in fixed-point notation, rounded to
  the nearest: the live usage in whole watts, each usage in kWh and each cost in pounds to
  2 decimals. The timestamp of a time with a year below 10000 has the form
  \<^verbatim>\<open>YYYY-MM-DD HH:mm:ss UTC\<close> and reads back as that time. (A number that is not finite
  is printed as it is: see the counterexample.)
\<close>

theorem status_report_format:
  assumes "snd (getLiveUsage rt (live_responses env)) = Inr liveUsage"
    and "snd (getYesterdayUsage rt cfg (yesterday_responses env)) = Inr yesterday"
    and "snd (getMonthlyUsage rt cfg (monthly_responses env)) = Inr monthly"
    and "snd (getTariffInfo rt cfg (tariff_responses env)) = Inr tariff"
  shows "snd (generateStatusMessage rt cfg env) =
      Inr (emoji_plug @ '' *Octopus Energy Status*'' @ [CHR 0x0A, CHR 0x0A] @
           ''*Current Usage:* '' @ toFixed rt liveUsage 0 @ ''W'' @ [CHR 0x0A, CHR 0x0A] @
           ''*Yesterday's Usage:*'' @ [CHR 0x0A] @
           ''Usage: '' @ toFixed rt (usage yesterday) 2 @ '' kWh'' @ [CHR 0x0A] @
           ''Cost: '' @ pound @ toFixed rt (cost yesterday) 2 @ [CHR 0x0A, CHR 0x0A] @
           ''*Last 30 Days:*'' @ [CHR 0x0A] @
           ''Usage: '' @ toFixed rt (usage monthly) 2 @ '' kWh'' @ [CHR 0x0A] @
           ''Cost: '' @ pound @ toFixed rt (cost monthly) 2 @ [CHR 0x0A, CHR 0x0A] @
           ''*Tariff Information:*'' @ [CHR 0x0A] @
           ''Name: '' @ name tariff @ [CHR 0x0A] @
           ''Unit Rate: '' @ pound @ unit_rate tariff @ ''/kWh'' @ [CHR 0x0A] @
           ''Standing Charge: '' @ pound @ standing_charge tariff @ ''/day'' @
           [CHR 0x0A, CHR 0x0A] @
           ''Last Updated: '' @ formatTimestamp (now env)) \<and>
    (in_fixed_range liveUsage \<longrightarrow> shows_number 0 liveUsage (toFixed rt liveUsage 0)) \<and>
    (in_fixed_range (usage yesterday) \<longrightarrow>
       shows_number 2 (usage yesterday) (toFixed rt (usage yesterday) 2)) \<and>
    (in_fixed_range (cost yesterday) \<longrightarrow>
       shows_number 2 (cost yesterday) (toFixed rt (cost yesterday) 2)) \<and>
    (in_fixed_range (usage monthly) \<longrightarrow>
       shows_number 2 (usage monthly) (toFixed rt (usage monthly) 2)) \<and>
    (in_fixed_range (cost monthly) \<longrightarrow>
       shows_number 2 (cost monthly) (toFixed rt (cost monthly) 2)) \<and>
    (year (now env) < 10000 \<and> month (now env) < 100 \<and> day (now env) < 100 \<and>
     hour (now env) < 100 \<and> minute (now env) < 100 \<and> second (now env) < 100 \<longrightarrow>
     has_form ''YYYY-MM-DD HH:mm:ss UTC'' (formatTimestamp (now env)) \<and>
     read_timestamp (formatTimestamp (now env)) = now env)"
proof (intro conjI impI)
  show "snd (generateStatusMessage rt cfg env) =
      Inr (emoji_plug @ '' *Octopus Energy Status*'' @ [CHR 0x0A, CHR 0x0A] @
           ''*Current Usage:* '' @ toFixed rt liveUsage 0 @ ''W'' @ [CHR 0x0A, CHR 0x0A] @
           ''*Yesterday's Usage:*'' @ [CHR 0x0A] @
           ''Usage: '' @ toFixed rt (usage yesterday) 2 @ '' kWh'' @ [CHR 0x0A] @
           ''Cost: '' @ pound @ toFixed rt (cost yesterday) 2 @ [CHR 0x0A, CHR 0x0A] @
           ''*Last 30 Days:*'' @ [CHR 0x0A] @
           ''Usage: '' @ toFixed rt (usage monthly) 2 @ '' kWh'' @ [CHR 0x0A] @
           ''Cost: '' @ pound @ toFixed rt (cost monthly) 2 @ [CHR 0x0A, CHR 0x0A] @
           ''*Tariff Information:*'' @ [CHR 0x0A] @
           ''Name: '' @ name tariff @ [CHR 0x0A] @
           ''Unit Rate: '' @ pound @ unit_rate tariff @ ''/kWh'' @ [CHR 0x0A] @
           ''Standing Charge: '' @ pound @ standing_charge tariff @ ''/day'' @
           [CHR 0x0A, CHR 0x0A] @
           ''Last Updated: '' @ formatTimestamp (now env))"
    using assms
    by (simp add: snd_generateStatusMessage snd_generateStatusMessage_try status_text_def
        formatUsageData_def)
next
  assume "in_fixed_range liveUsage"
  then show "shows_number 0 liveUsage (toFixed rt liveUsage 0)"
    by (rule toFixed_shows)
next
  assume "in_fixed_range (usage yesterday)"
  then show "shows_number 2 (usage yesterday) (toFixed rt (usage yesterday) 2)"
    by (rule toFixed_shows)
next
  assume "in_fixed_range (cost yesterday)"
  then show "shows_number 2 (cost yesterday) (toFixed rt (cost yesterday) 2)"
    by (rule toFixed_shows)
next
  assume "in_fixed_range (usage monthly)"
  then show "shows_number 2 (usage monthly) (toFixed rt (usage monthly) 2)"
    by (rule toFixed_shows)
next
  assume "in_fixed_range (cost monthly)"
  then show "shows_number 2 (cost monthly) (toFixed rt (cost monthly) 2)"
    by (rule toFixed_shows)
next
  assume "year (now env) < 10000 \<and> month (now env) < 100 \<and> day (now env) < 100 \<and>
     hour (now env) < 100 \<and> minute (now env) < 100 \<and> second (now env) < 100"
  then show "has_form ''YYYY-MM-DD HH:mm:ss UTC'' (formatTimestamp (now env))"
    by (simp add: formatTimestamp_form)
next
  assume "year (now env) < 10000 \<and> month (now env) < 100 \<and> day (now env) < 100 \<and>
     hour (now env) < 100 \<and> minute (now env) < 100 \<and> second (now env) < 100"
  then show "read_timestamp (formatTimestamp (now env)) = now env"
    by (simp add: read_timestamp_format)
qed

lemma example_live_usage:
  "snd (getLiveUsage example_runtime (example_live_env (JStr ''350''))) = Inr (Fin 350)"
  "snd (getLiveUsage example_runtime (example_live_env JUndefined)) = Inr NaN"
  by (simp_all add: snd_getLiveUsage snd_getLiveUsage_try snd_getKrakenToken snd_getMeterGuid
      example_live_env_def example_runtime_def)

lemma example_report_parts:
  "snd (getYesterdayUsage example_runtime example_config
      (yesterday_responses example_report_env)) = Inr \<lparr>usage = Fin 10, cost = Fin (5 / 2)\<rparr>"
  "snd (getMonthlyUsage example_runtime example_config
      (monthly_responses example_report_env)) = Inr \<lparr>usage = Fin 20, cost = Fin 5\<rparr>"
  "snd (getTariffInfo example_runtime example_config (tariff_responses example_report_env)) =
     Inr \<lparr>name = ''Agile Octopus'', unit_rate = ''0.2500'', standing_charge = ''0.50''\<rparr>"
  "formatTimestamp (now example_report_env) = ''2024-03-01 09:05:07 UTC''"
proof -
  show "snd (getYesterdayUsage example_runtime example_config
      (yesterday_responses example_report_env)) = Inr \<lparr>usage = Fin 10, cost = Fin (5 / 2)\<rparr>"
    by (simp add: example_report_env_def example_usage totalUsage_def round64_examples
        toFixed_examples parseFloat_examples)
  show "snd (getMonthlyUsage example_runtime example_config
      (monthly_responses example_report_env)) = Inr \<lparr>usage = Fin 20, cost = Fin 5\<rparr>"
    by (simp add: example_report_env_def example_monthly totalUsage_def round64_examples
        round64_more_examples toFixed_examples parseFloat_examples)
  show "snd (getTariffInfo example_runtime example_config (tariff_responses example_report_env)) =
     Inr \<lparr>name = ''Agile Octopus'', unit_rate = ''0.2500'', standing_charge = ''0.50''\<rparr>"
    by (simp add: example_report_env_def example_tariff round64_examples toFixed_examples)
  show "formatTimestamp (now example_report_env) = ''2024-03-01 09:05:07 UTC''"
    by (simp add: example_report_env_def formatTimestamp_def zeroFill_def decimal_small
        decimal_big digit_char_def)
qed

lemma toFixed_more_examples:
  "toFixed example_runtime (Fin 350) 0 = ''350''"
  "toFixed example_runtime (Fin 20) 2 = ''20.00''" "toFixed example_runtime (Fin 5) 2 = ''5.00''"
  by (simp_all add: toFixed_eval)

theorem status_report_format_witness:
  "snd (generateStatusMessage example_runtime example_config example_report_env) =
      Inr (emoji_plug @ '' *Octopus Energy Status*'' @ [CHR 0x0A, CHR 0x0A] @
           ''*Current Usage:* 350W'' @ [CHR 0x0A, CHR 0x0A] @
           ''*Yesterday's Usage:*'' @ [CHR 0x0A] @
           ''Usage: 10.00 kWh'' @ [CHR 0x0A] @
           ''Cost: '' @ pound @ ''2.50'' @ [CHR 0x0A, CHR 0x0A] @
           ''*Last 30 Days:*'' @ [CHR 0x0A] @
           ''Usage: 20.00 kWh'' @ [CHR 0x0A] @
           ''Cost: '' @ pound @ ''5.00'' @ [CHR 0x0A, CHR 0x0A] @
           ''*Tariff Information:*'' @ [CHR 0x0A] @
           ''Name: Agile Octopus'' @ [CHR 0x0A] @
           ''Unit Rate: '' @ pound @ ''0.2500/kWh'' @ [CHR 0x0A] @
           ''Standing Charge: '' @ pound @ ''0.50/day'' @ [CHR 0x0A, CHR 0x0A] @
           ''Last Updated: 2024-03-01 09:05:07 UTC'') \<and>
   in_fixed_range (Fin 350) \<and> shows_number 0 (Fin 350) ''350'' \<and>
   in_fixed_range (Fin 10) \<and> shows_number 2 (Fin 10) ''10.00'' \<and>
   in_fixed_range (Fin (5 / 2)) \<and> shows_number 2 (Fin (5 / 2)) ''2.50'' \<and>
   in_fixed_range (Fin 20) \<and> shows_number 2 (Fin 20) ''20.00'' \<and>
   in_fixed_range (Fin 5) \<and> shows_number 2 (Fin 5) ''5.00'' \<and>
   has_form ''YYYY-MM-DD HH:mm:ss UTC'' ''2024-03-01 09:05:07 UTC'' \<and>
   read_timestamp ''2024-03-01 09:05:07 UTC'' =
     \<lparr>year = 2024, month = 3, day = 1, hour = 9, minute = 5, second = 7\<rparr>"
proof -
  have l: "snd (getLiveUsage example_runtime (live_responses example_report_env)) = Inr (Fin 350)"
    by (simp add: example_report_env_def example_live_usage)
  have n: "now example_report_env =
      \<lparr>year = 2024, month = 3, day = 1, hour = 9, minute = 5, second = 7\<rparr>"
    by (simp add: example_report_env_def)
  have r: "in_fixed_range (Fin 350)" "in_fixed_range (Fin 10)" "in_fixed_range (Fin (5 / 2))"
    "in_fixed_range (Fin 20)" "in_fixed_range (Fin 5)"
    by (simp_all add: in_fixed_range_def)
  note th = status_report_format [OF l example_report_parts(1,2,3)]
  from th have 1: "snd (generateStatusMessage example_runtime example_config example_report_env) =
      Inr (emoji_plug @ '' *Octopus Energy Status*'' @ [CHR 0x0A, CHR 0x0A] @
           ''*Current Usage:* 350W'' @ [CHR 0x0A, CHR 0x0A] @
           ''*Yesterday's Usage:*'' @ [CHR 0x0A] @
           ''Usage: 10.00 kWh'' @ [CHR 0x0A] @
           ''Cost: '' @ pound @ ''2.50'' @ [CHR 0x0A, CHR 0x0A] @
           ''*Last 30 Days:*'' @ [CHR 0x0A] @
           ''Usage: 20.00 kWh'' @ [CHR 0x0A] @
           ''Cost: '' @ pound @ ''5.00'' @ [CHR 0x0A, CHR 0x0A] @
           ''*Tariff Information:*'' @ [CHR 0x0A] @
           ''Name: Agile Octopus'' @ [CHR 0x0A] @
           ''Unit Rate: '' @ pound @ ''0.2500/kWh'' @ [CHR 0x0A] @
           ''Standing Charge: '' @ pound @ ''0.50/day'' @ [CHR 0x0A, CHR 0x0A] @
           ''Last Updated: 2024-03-01 09:05:07 UTC'')"
    by (simp add: example_report_parts(4) toFixed_more_examples toFixed_examples)
  from th r have 2: "shows_number 0 (Fin 350) ''350''" "shows_number 2 (Fin 10) ''10.00''"
    "shows_number 2 (Fin (5 / 2)) ''2.50''" "shows_number 2 (Fin 20) ''20.00''"
    "shows_number 2 (Fin 5) ''5.00''"
    by (simp_all add: toFixed_more_examples toFixed_examples)
  from th have 3: "has_form ''YYYY-MM-DD HH:mm:ss UTC'' ''2024-03-01 09:05:07 UTC''"
    "read_timestamp ''2024-03-01 09:05:07 UTC'' =
       \<lparr>year = 2024, month = 3, day = 1, hour = 9, minute = 5, second = 7\<rparr>"
    unfolding example_report_parts(4) by (simp_all add: n)
  from 1 2 3 r show ?thesis
    by (intro conjI)
qed

text \<open>
  The claim as it was stated fails for a successful report whose live usage is not a
  finite number: with a telemetry reading that has no demand field the four calls succeed
  and the report shows \<^verbatim>\<open>NaNW\<close> for the live usage, which is not a number of whole watts.
\<close>

theorem status_report_nan_counterexample:
  "snd (generateStatusMessage example_runtime example_config example_nan_report_env) =
      Inr (emoji_plug @ '' *Octopus Energy Status*'' @ [CHR 0x0A, CHR 0x0A] @
           ''*Current Usage:* NaNW'' @ [CHR 0x0A, CHR 0x0A] @
           ''*Yesterday's Usage:*'' @ [CHR 0x0A] @
           ''Usage: 10.00 kWh'' @ [CHR 0x0A] @
           ''Cost: '' @ pound @ ''2.50'' @ [CHR 0x0A, CHR 0x0A] @
           ''*Last 30 Days:*'' @ [CHR 0x0A] @
           ''Usage: 20.00 kWh'' @ [CHR 0x0A] @
           ''Cost: '' @ pound @ ''5.00'' @ [CHR 0x0A, CHR 0x0A] @
           ''*Tariff Information:*'' @ [CHR 0x0A] @
           ''Name: Agile Octopus'' @ [CHR 0x0A] @
           ''Unit Rate: '' @ pound @ ''0.2500/kWh'' @ [CHR 0x0A] @
           ''Standing Charge: '' @ pound @ ''0.50/day'' @ [CHR 0x0A, CHR 0x0A] @
           ''Last Updated: 2024-03-01 09:05:07 UTC'') \<and>
   \<not> fixed_notation 0 ''NaN''"
proof -
  have p: "yesterday_responses example_nan_report_env = yesterday_responses example_report_env"
    "monthly_responses example_nan_report_env = monthly_responses example_report_env"
    "tariff_responses example_nan_report_env = tariff_responses example_report_env"
    "now example_nan_report_env = now example_report_env"
    "live_responses example_nan_report_env = example_live_env JUndefined"
    by (simp_all add: example_nan_report_env_def)
  have n: "toFixed example_runtime NaN 0 = ''NaN''"
    by (simp add: toFixed_def)
  have f: "\<not> fixed_notation 0 ''NaN''"
    by (simp add: fixed_notation_def unsigned_fixed_def is_digit_def)
  have "snd (generateStatusMessage example_runtime example_config example_nan_report_env) =
      Inr (status_text example_runtime NaN \<lparr>usage = Fin 10, cost = Fin (5 / 2)\<rparr>
        \<lparr>usage = Fin 20, cost = Fin 5\<rparr>
        \<lparr>name = ''Agile Octopus'', unit_rate = ''0.2500'', standing_charge = ''0.50''\<rparr>
        (now example_report_env))"
    by (simp add: snd_generateStatusMessage snd_generateStatusMessage_try p example_live_usage
        example_report_parts(1,2,3))
  then show ?thesis
    using f
    by (simp add: status_text_def formatUsageData_def n example_report_parts(4)
        toFixed_more_examples toFixed_examples)
qed

end
